theory Spec2Isabelle
  imports Complex_Main "HOL-Library.Word" "HOL-Library.Log_Nat" "HOL-Library.AList"
begin

section \<open>Values held by a Go \<open>interface{}\<close>\<close>

text \<open>
  A float64 is kept by its value: a finite value as the rational it denotes, with the
  negative zero, the two infinities and NaN apart. \<open>Fin 0\<close> is the positive zero.
\<close>

datatype float64 = Fin rat | NegZero | PosInf | NegInf | NaN

text \<open>The comparison \<open>==\<close> of two float64: NaN equals nothing, the two zeros are equal.\<close>

fun float64_eq :: "float64 \<Rightarrow> float64 \<Rightarrow> bool" where
  "float64_eq (Fin r) (Fin s) = (r = s)"
| "float64_eq (Fin r) NegZero = (r = 0)"
| "float64_eq NegZero (Fin s) = (s = 0)"
| "float64_eq NegZero NegZero = True"
| "float64_eq PosInf PosInf = True"
| "float64_eq NegInf NegInf = True"
| "float64_eq _ _ = False"

text \<open>Truncation toward zero, the rounding of the conversion \<open>int64(f)\<close>.\<close>

definition trunc_rat :: "rat \<Rightarrow> int" where
  "trunc_rat r = (if 0 \<le> r then \<lfloor>r\<rfloor> else \<lceil>r\<rceil>)"

text \<open>
  \<open>int64(f)\<close>. Go leaves the result implementation-dependent when the truncated value
  does not fit (also for the infinities and NaN); the value taken here is the one of
  amd64, \<open>0x8000000000000000\<close>.
\<close>

definition int64_of_float64 :: "float64 \<Rightarrow> 64 word" where
  "int64_of_float64 f =
     (case f of
        Fin r \<Rightarrow>
          (if - 9223372036854775808 \<le> trunc_rat r \<and> trunc_rat r < 9223372036854775808
           then word_of_int (trunc_rat r) else 0x8000000000000000)
      | NegZero \<Rightarrow> 0
      | _ \<Rightarrow> 0x8000000000000000)"

text \<open>
  \<open>float64(n)\<close> for an int64 \<open>n\<close>: the nearest value with a mantissa of 53 bits, a tie
  going to the even mantissa.
\<close>

definition round_to_53 :: "int \<Rightarrow> int" where
  "round_to_53 n =
     (let a = \<bar>n\<bar>; k = nat (bitlen a - 53); q = a div 2 ^ k; r = a mod 2 ^ k;
          q' = (if 2 * r > 2 ^ k \<or> (2 * r = 2 ^ k \<and> odd q) then q + 1 else q)
      in sgn n * (q' * 2 ^ k))"

definition float64_of_int64 :: "64 word \<Rightarrow> float64" where
  "float64_of_int64 w = Fin (of_int (round_to_53 (sint w)))"

text \<open>
  The rationals a float64 can hold have a mantissa below \<open>2 ^ 53\<close>. (The bounds of the
  exponent are left out: they play no part below.)
\<close>

definition is_float64 :: "rat \<Rightarrow> bool" where
  "is_float64 r =
     (\<exists>m e. \<bar>m\<bar> < (2::int) ^ 53 \<and> (r = of_int m * 2 ^ e \<or> r = of_int m / 2 ^ e))"

text \<open>
  The floats whose integer part an int64 holds: the negative zero is one, the infinities
  and NaN are not.
\<close>

definition float64_fits_int64 :: "float64 \<Rightarrow> bool" where
  "float64_fits_int64 f =
     (case f of
        Fin r \<Rightarrow> - 9223372036854775808 \<le> trunc_rat r \<and> trunc_rat r < 9223372036854775808
      | NegZero \<Rightarrow> True
      | _ \<Rightarrow> False)"

text \<open>
  The dynamic values that reach this package: what the JSON decoder produces (nil, bool,
  float64, string, \<open>[]interface{}\<close>, \<open>map[string]interface{}\<close>) and what the database
  driver produces (int64, \<open>[]byte\<close>).
\<close>

datatype gvalue =
    GNil
  | GBool bool
  | GInt64 "64 word"
  | GFloat64 float64
  | GString string
  | GBytes "8 word list"
  | GSlice "gvalue list"
  | GMap "(string \<times> gvalue) list"

text \<open>What a Go call does: it returns, or it panics at run time.\<close>

datatype 'a outcome = Returns 'a | Panics

text \<open>
  \<open>a == b\<close> on two interface values: false when the dynamic types differ, the comparison
  of the type when they agree, and a run-time panic when the common type is not
  comparable (slices and maps).
\<close>

fun iface_eq :: "gvalue \<Rightarrow> gvalue \<Rightarrow> bool outcome" where
  "iface_eq GNil GNil = Returns True"
| "iface_eq (GBool a) (GBool b) = Returns (a = b)"
| "iface_eq (GInt64 a) (GInt64 b) = Returns (a = b)"
| "iface_eq (GFloat64 a) (GFloat64 b) = Returns (float64_eq a b)"
| "iface_eq (GString a) (GString b) = Returns (a = b)"
| "iface_eq (GBytes a) (GBytes b) = Panics"
| "iface_eq (GSlice a) (GSlice b) = Panics"
| "iface_eq (GMap a) (GMap b) = Panics"
| "iface_eq _ _ = Returns False"

text \<open>A slice is nil or holds elements; ranging over a nil slice runs no iteration.\<close>

type_synonym 'a slice = "'a list option"

definition elems :: "'a slice \<Rightarrow> 'a list" where
  "elems s = (case s of None \<Rightarrow> [] | Some xs \<Rightarrow> xs)"

section \<open>The data model of \<open>model.go\<close>\<close>

record Range_r =
  Min_r :: "64 word"
  Max_r :: "64 word"

record Preference =
  Key :: string
  Name :: string
  Description :: string
  ValueType :: string
  DefaultValue :: gvalue
  AllowedValues :: "gvalue slice"
  IsDescreteValues :: bool
  Range_r :: Range_r
  AllowedScopes :: "string slice"

text \<open>\<open>AllPreferences\<close> repeats the fields of \<open>Preference\<close> and adds \<open>Value\<close>.\<close>

record AllPreferences = Preference +
  Value :: gvalue

record PreferenceKV =
  PreferenceId :: string
  PreferenceValue :: gvalue

datatype ErrorType = ErrorBadData | ErrorForbidden | ErrorExec

text \<open>
  The messages built with \<open>fmt.Errorf\<close>, kept by their format and their arguments.
\<close>

datatype ErrorMsg =
    NoSuchPreferenceId string
  | NotEnabledAtOrgScope string
  | NotEnabledAtUserScope string
  | NotOfExpectedType string
  | NotInRange "64 word" "64 word"
  | NotInAllowedValues "gvalue slice"
  | FetchingOrgPreference string
  | SettingPreferenceValue string
  | GettingAllOrgValues string
  | GettingOrgValues string
  | GettingUserValues string
  | GettingAllUserValues string

record ApiError =
  Typ :: ErrorType
  Err :: ErrorMsg

definition PreferenceValueTypeInteger :: string where
  "PreferenceValueTypeInteger = ''integer''"

definition PreferenceValueTypeFloat :: string where
  "PreferenceValueTypeFloat = ''float''"

definition PreferenceValueTypeString :: string where
  "PreferenceValueTypeString = ''string''"

definition PreferenceValueTypeBoolean :: string where
  "PreferenceValueTypeBoolean = ''boolean''"

definition OrgAllowedScope :: string where
  "OrgAllowedScope = ''org''"

definition UserAllowedScope :: string where
  "UserAllowedScope = ''user''"

definition ErrorValueTypeMismatch :: "'a Preference_scheme \<Rightarrow> ApiError" where
  "ErrorValueTypeMismatch p = \<lparr>Typ = ErrorBadData, Err = NotOfExpectedType (ValueType p)\<rparr>"

section \<open>The validator\<close>

text \<open>The loop of \<open>checkIfInAllowedValues\<close>, with the flag it carries.\<close>

fun checkIfInAllowedValues_loop :: "gvalue \<Rightarrow> gvalue list \<Rightarrow> bool \<Rightarrow> bool outcome" where
  "checkIfInAllowedValues_loop preferenceValue [] isInAllowedValues = Returns isInAllowedValues"
| "checkIfInAllowedValues_loop preferenceValue (v # vs) isInAllowedValues =
     (case iface_eq v preferenceValue of
        Panics \<Rightarrow> Panics
      | Returns b \<Rightarrow>
          checkIfInAllowedValues_loop preferenceValue vs (if b then True else isInAllowedValues))"

definition checkIfInAllowedValues :: "gvalue \<Rightarrow> 'a Preference_scheme \<Rightarrow> bool outcome" where
  "checkIfInAllowedValues preferenceValue preference =
     checkIfInAllowedValues_loop preferenceValue (elems (AllowedValues preference)) False"

text \<open>
  Lines 62 to 69 of \<open>IsValidValue\<close>: the int64 the candidate stands for, \<open>None\<close> where
  the code returns the type mismatch.
\<close>

definition integerValue :: "gvalue \<Rightarrow> 64 word option" where
  "integerValue preferenceValue =
     (case preferenceValue of
        GInt64 val \<Rightarrow> Some val
      | GFloat64 floatVal \<Rightarrow>
          (if \<not> float64_eq floatVal (float64_of_int64 (int64_of_float64 floatVal))
           then None else Some (int64_of_float64 floatVal))
      | _ \<Rightarrow> None)"

text \<open>
  The \<open>switch\<close> of \<open>IsValidValue\<close>: the error it returns from, \<open>None\<close> where control
  reaches the statement after it.
\<close>

definition IsValidValue_switch :: "'a Preference_scheme \<Rightarrow> gvalue \<Rightarrow> ApiError option" where
  "IsValidValue_switch p preferenceValue =
     (if ValueType p = PreferenceValueTypeInteger then
        (case integerValue preferenceValue of
           None \<Rightarrow> Some (ErrorValueTypeMismatch p)
         | Some val \<Rightarrow>
             (if \<not> IsDescreteValues p then
                (if sint val < sint (Min_r (Range_r p)) \<or> sint val > sint (Max_r (Range_r p))
                 then Some \<lparr>Typ = ErrorBadData,
                            Err = NotInRange (Min_r (Range_r p)) (Max_r (Range_r p))\<rparr>
                 else None)
              else None))
      else if ValueType p = PreferenceValueTypeString then
        (case preferenceValue of GString _ \<Rightarrow> None | _ \<Rightarrow> Some (ErrorValueTypeMismatch p))
      else if ValueType p = PreferenceValueTypeFloat then
        (case preferenceValue of GFloat64 _ \<Rightarrow> None | _ \<Rightarrow> Some (ErrorValueTypeMismatch p))
      else if ValueType p = PreferenceValueTypeBoolean then
        (case preferenceValue of GBool _ \<Rightarrow> None | _ \<Rightarrow> Some (ErrorValueTypeMismatch p))
      else None)"

text \<open>\<open>IsValidValue\<close>: \<open>Returns None\<close> is the nil error, the value accepted.\<close>

definition IsValidValue :: "'a Preference_scheme \<Rightarrow> gvalue \<Rightarrow> ApiError option outcome" where
  "IsValidValue p preferenceValue =
     (case IsValidValue_switch p preferenceValue of
        Some e \<Rightarrow> Returns (Some e)
      | None \<Rightarrow>
          (if IsDescreteValues p then
             (if AllowedValues p \<noteq> None then
                (case checkIfInAllowedValues preferenceValue p of
                   Panics \<Rightarrow> Panics
                 | Returns isInAllowedValues \<Rightarrow>
                     (if \<not> isInAllowedValues
                      then Returns (Some \<lparr>Typ = ErrorBadData,
                                         Err = NotInAllowedValues (AllowedValues p)\<rparr>)
                      else Returns None))
              else Returns None)
           else Returns None))"

fun IsEnabledForScope_loop :: "string list \<Rightarrow> string \<Rightarrow> bool \<Rightarrow> bool" where
  "IsEnabledForScope_loop [] scope isEnabled = isEnabled"
| "IsEnabledForScope_loop (allowedScope # rest) scope isEnabled =
     IsEnabledForScope_loop rest scope (if allowedScope = scope then True else isEnabled)"

definition IsEnabledForScope :: "'a Preference_scheme \<Rightarrow> string \<Rightarrow> bool" where
  "IsEnabledForScope p scope =
     (case AllowedScopes p of
        None \<Rightarrow> False
      | Some scopes \<Rightarrow> IsEnabledForScope_loop scopes scope False)"

definition SanitizeValue :: "'a Preference_scheme \<Rightarrow> gvalue \<Rightarrow> gvalue" where
  "SanitizeValue p preferenceValue =
     (if ValueType p = PreferenceValueTypeBoolean then
        (if preferenceValue = GString ''1'' then GBool True else GBool False)
      else preferenceValue)"

section \<open>The store\<close>

text \<open>
  The two tables \<open>org_preference\<close> and \<open>user_preference\<close>. A row is the pair of its key,
  \<open>(preference_id, org_id)\<close> or \<open>(preference_id, user_id)\<close>, and its \<open>preference_value\<close>;
  the primary key keeps at most one row for a key. A statement on a table either runs or
  fails with the error of the driver, \<open>org_fault\<close> and \<open>user_fault\<close>. A row holds
  the value a query returns for it.
\<close>

type_synonym table = "((string \<times> string) \<times> gvalue) list"

record DB =
  org_preference :: table
  user_preference :: table
  org_fault :: "string option"
  user_fault :: "string option"

text \<open>\<open>db.Get\<close>: one row, \<open>sql.ErrNoRows\<close>, or another error.\<close>

datatype GetResult = GetRow gvalue | ErrNoRows | GetErr string

definition db_Get :: "table \<Rightarrow> string option \<Rightarrow> string \<Rightarrow> string \<Rightarrow> GetResult" where
  "db_Get tbl fault preferenceId ownerId =
     (case fault of
        Some e \<Rightarrow> GetErr e
      | None \<Rightarrow>
          (case map_of tbl (preferenceId, ownerId) of
             None \<Rightarrow> ErrNoRows
           | Some v \<Rightarrow> GetRow v))"

text \<open>\<open>db.Select\<close>: the rows of one owner, as \<open>PreferenceKV\<close>, or an error.\<close>

definition db_Select :: "table \<Rightarrow> string option \<Rightarrow> string \<Rightarrow> string + PreferenceKV list" where
  "db_Select tbl fault ownerId =
     (case fault of
        Some e \<Rightarrow> Inl e
      | None \<Rightarrow>
          Inr (map (\<lambda>r. \<lparr>PreferenceId = fst (fst r), PreferenceValue = snd r\<rparr>)
                 (filter (\<lambda>r. snd (fst r) = ownerId) tbl)))"

text \<open>The decimal text of an integer.\<close>

function nat_text :: "nat \<Rightarrow> string" where
  "nat_text n =
     (if n < 10 then [''0123456789'' ! n]
      else nat_text (n div 10) @ [''0123456789'' ! (n mod 10)])"
  by pat_completeness auto
termination
  by (relation "measure id") auto

declare nat_text.simps [simp del]

definition int_text :: "int \<Rightarrow> string" where
  "int_text i = (if i < 0 then CHR ''-'' # nat_text (nat (- i)) else nat_text (nat i))"

text \<open>
  The text SQLite gives a float kept in a column of type TEXT. It is written out for a
  float without fractional part that is below \<open>10 ^ 15\<close> in magnitude: its decimal
  digits followed by \<open>.0\<close>. The text of the other floats is left unspecified.
\<close>

definition real_text :: "float64 \<Rightarrow> string" where
  "real_text f =
     (case f of
        Fin r \<Rightarrow>
          (if of_int \<lfloor>r\<rfloor> = r \<and> \<bar>r\<bar> < 1000000000000000 then int_text \<lfloor>r\<rfloor> @ ''.0''
           else undefined)
      | _ \<Rightarrow> undefined)"

text \<open>
  What \<open>preference_value TEXT\<close> holds, and a query returns, for an argument bound to the
  \<open>INSERT\<close>. The driver binds nil as NULL, a bool as the integer 1 or 0, an int64, a
  float64 (NaN as NULL), a string and a \<open>[]byte\<close>; the column turns a number into its text
  and keeps a blob. \<open>database/sql\<close> refuses a slice or a map before the driver sees it
  (\<open>Inl\<close>, the error of \<open>db.Exec\<close>). For the empty \<open>[]byte\<close>, which stands for the nil and
  for the empty slice, the column is left unspecified.
\<close>

definition column_of_argument :: "gvalue \<Rightarrow> string + gvalue" where
  "column_of_argument v =
     (case v of
        GNil \<Rightarrow> Inr GNil
      | GBool b \<Rightarrow> Inr (GString (if b then ''1'' else ''0''))
      | GInt64 n \<Rightarrow> Inr (GString (int_text (sint n)))
      | GFloat64 f \<Rightarrow> (if f = NaN then Inr GNil else Inr (GString (real_text f)))
      | GString str \<Rightarrow> Inr (GString str)
      | GBytes b \<Rightarrow> (if b = [] then undefined else Inr (GBytes b))
      | GSlice _ \<Rightarrow>
          Inl (''sql: converting argument $2 type: ''
               @ ''unsupported type []interface {}, a slice of interface'')
      | GMap _ \<Rightarrow>
          Inl (''sql: converting argument $2 type: ''
               @ ''unsupported type map[string]interface {}, a map''))"

text \<open>
  \<open>db.Exec\<close> of the \<open>INSERT ... ON CONFLICT ... DO UPDATE\<close>: the error, if any, and the
  table after the statement.
\<close>

definition db_Exec_upsert ::
  "table \<Rightarrow> string option \<Rightarrow> string \<Rightarrow> gvalue \<Rightarrow> string \<Rightarrow> string option \<times> table" where
  "db_Exec_upsert tbl fault preferenceId preferenceValue ownerId =
     (case fault of
        Some e \<Rightarrow> (Some e, tbl)
      | None \<Rightarrow>
          (case column_of_argument preferenceValue of
             Inl e \<Rightarrow> (Some e, tbl)
           | Inr c \<Rightarrow> (None, AList.update (preferenceId, ownerId) c tbl)))"

text \<open>The loop filling \<open>preferenceValueMap\<close> from the rows selected.\<close>

fun valueMap_loop :: "PreferenceKV list \<Rightarrow> (string \<rightharpoonup> gvalue) \<Rightarrow> (string \<rightharpoonup> gvalue)" where
  "valueMap_loop [] m = m"
| "valueMap_loop (kv # kvs) m = valueMap_loop kvs (m(PreferenceId kv \<mapsto> PreferenceValue kv))"

section \<open>The operations\<close>

text \<open>
  The package variables \<open>preferences\<close> and \<open>preferenceMap\<close>. The operations take them
  and the store as arguments, and the user operations take the identifier of the user,
  which the code reads from the context with \<open>common.GetUserFromContext\<close>.
\<close>

record Globals =
  preferences :: "Preference list"
  preferenceMap :: "string \<rightharpoonup> Preference"

text \<open>The loop of \<open>InitDB\<close> that fills \<open>preferenceMap\<close>; \<open>Inl\<close> is the duplicate key.\<close>

fun InitDB_loop :: "Preference list \<Rightarrow> (string \<rightharpoonup> Preference) \<Rightarrow> string + (string \<rightharpoonup> Preference)" where
  "InitDB_loop [] m = Inr m"
| "InitDB_loop (preference # rest) m =
     (case m (Key preference) of
        Some _ \<Rightarrow> Inl (Key preference)
      | None \<Rightarrow> InitDB_loop rest (m(Key preference \<mapsto> preference)))"

definition InitDB :: "Preference list \<Rightarrow> string + Globals" where
  "InitDB prefs =
     (case InitDB_loop prefs Map.empty of
        Inl k \<Rightarrow> Inl k
      | Inr m \<Rightarrow> Inr \<lparr>preferences = prefs, preferenceMap = m\<rparr>)"

definition GetOrgPreference :: "Globals \<Rightarrow> DB \<Rightarrow> string \<Rightarrow> string \<Rightarrow> ApiError + PreferenceKV" where
  "GetOrgPreference g db preferenceId orgId =
     (case preferenceMap g preferenceId of
        None \<Rightarrow> Inl \<lparr>Typ = ErrorBadData, Err = NoSuchPreferenceId preferenceId\<rparr>
      | Some preference \<Rightarrow>
          (if \<not> IsEnabledForScope preference OrgAllowedScope
           then Inl \<lparr>Typ = ErrorForbidden, Err = NotEnabledAtOrgScope preferenceId\<rparr>
           else
             (case db_Get (org_preference db) (org_fault db) preferenceId orgId of
                ErrNoRows \<Rightarrow>
                  Inr \<lparr>PreferenceId = preferenceId, PreferenceValue = DefaultValue preference\<rparr>
              | GetErr e \<Rightarrow> Inl \<lparr>Typ = ErrorExec, Err = FetchingOrgPreference e\<rparr>
              | GetRow v \<Rightarrow>
                  Inr \<lparr>PreferenceId = preferenceId,
                       PreferenceValue = SanitizeValue preference v\<rparr>)))"

definition UpdateOrgPreference ::
  "Globals \<Rightarrow> DB \<Rightarrow> string \<Rightarrow> gvalue \<Rightarrow> string \<Rightarrow> (ApiError + PreferenceKV) outcome \<times> DB" where
  "UpdateOrgPreference g db preferenceId preferenceValue orgId =
     (case preferenceMap g preferenceId of
        None \<Rightarrow> (Returns (Inl \<lparr>Typ = ErrorBadData, Err = NoSuchPreferenceId preferenceId\<rparr>), db)
      | Some preference \<Rightarrow>
          (if \<not> IsEnabledForScope preference OrgAllowedScope
           then (Returns (Inl \<lparr>Typ = ErrorForbidden, Err = NotEnabledAtOrgScope preferenceId\<rparr>), db)
           else
             (case IsValidValue preference preferenceValue of
                Panics \<Rightarrow> (Panics, db)
              | Returns (Some err) \<Rightarrow> (Returns (Inl err), db)
              | Returns None \<Rightarrow>
                  (case db_Exec_upsert (org_preference db) (org_fault db)
                          preferenceId preferenceValue orgId of
                     (Some dberr, tbl) \<Rightarrow>
                       (Returns (Inl \<lparr>Typ = ErrorExec, Err = SettingPreferenceValue dberr\<rparr>),
                        db\<lparr>org_preference := tbl\<rparr>)
                   | (None, tbl) \<Rightarrow>
                       (Returns (Inr \<lparr>PreferenceId = preferenceId,
                                      PreferenceValue = preferenceValue\<rparr>),
                        db\<lparr>org_preference := tbl\<rparr>)))))"

text \<open>The body of the loop of \<open>GetAllOrgPreferences\<close> over \<open>preferences\<close>.\<close>

fun GetAllOrgPreferences_loop ::
  "Preference list \<Rightarrow> (string \<rightharpoonup> gvalue) \<Rightarrow> AllPreferences list \<Rightarrow> AllPreferences list" where
  "GetAllOrgPreferences_loop [] preferenceValueMap allOrgPreferences = allOrgPreferences"
| "GetAllOrgPreferences_loop (preference # rest) preferenceValueMap allOrgPreferences =
     (if IsEnabledForScope preference OrgAllowedScope then
        GetAllOrgPreferences_loop rest preferenceValueMap
          (allOrgPreferences @
             [Preference.extend preference
                (AllPreferences.fields
                   (SanitizeValue preference
                      (case preferenceValueMap (Key preference) of
                         Some ok \<Rightarrow> ok
                       | None \<Rightarrow> DefaultValue preference)))])
      else GetAllOrgPreferences_loop rest preferenceValueMap allOrgPreferences)"

definition GetAllOrgPreferences :: "Globals \<Rightarrow> DB \<Rightarrow> string \<Rightarrow> ApiError + AllPreferences list" where
  "GetAllOrgPreferences g db orgId =
     (case db_Select (org_preference db) (org_fault db) orgId of
        Inl err \<Rightarrow> Inl \<lparr>Typ = ErrorExec, Err = GettingAllOrgValues err\<rparr>
      | Inr orgPreferenceValues \<Rightarrow>
          Inr (GetAllOrgPreferences_loop (preferences g)
                 (valueMap_loop orgPreferenceValues Map.empty) []))"

definition GetUserPreference ::
  "Globals \<Rightarrow> DB \<Rightarrow> string \<Rightarrow> string \<Rightarrow> string \<Rightarrow> ApiError + PreferenceKV" where
  "GetUserPreference g db preferenceId orgId userId =
     (case preferenceMap g preferenceId of
        None \<Rightarrow> Inl \<lparr>Typ = ErrorBadData, Err = NoSuchPreferenceId preferenceId\<rparr>
      | Some preference \<Rightarrow>
          (if \<not> IsEnabledForScope preference UserAllowedScope
           then Inl \<lparr>Typ = ErrorForbidden, Err = NotEnabledAtUserScope preferenceId\<rparr>
           else
             (case (if IsEnabledForScope preference OrgAllowedScope
                    then (case db_Get (org_preference db) (org_fault db) preferenceId orgId of
                            GetErr e \<Rightarrow> Inl \<lparr>Typ = ErrorExec, Err = GettingOrgValues e\<rparr>
                          | ErrNoRows \<Rightarrow> Inr (DefaultValue preference)
                          | GetRow v \<Rightarrow> Inr v)
                    else Inr (DefaultValue preference)) of
                Inl err \<Rightarrow> Inl err
              | Inr selected \<Rightarrow>
                  (case db_Get (user_preference db) (user_fault db) preferenceId userId of
                     GetErr e \<Rightarrow> Inl \<lparr>Typ = ErrorExec, Err = GettingUserValues e\<rparr>
                   | ErrNoRows \<Rightarrow>
                       Inr \<lparr>PreferenceId = preferenceId,
                            PreferenceValue = SanitizeValue preference selected\<rparr>
                   | GetRow v \<Rightarrow>
                       Inr \<lparr>PreferenceId = preferenceId,
                            PreferenceValue = SanitizeValue preference v\<rparr>))))"

definition UpdateUserPreference ::
  "Globals \<Rightarrow> DB \<Rightarrow> string \<Rightarrow> gvalue \<Rightarrow> string \<Rightarrow> (ApiError + PreferenceKV) outcome \<times> DB" where
  "UpdateUserPreference g db preferenceId preferenceValue userId =
     (case preferenceMap g preferenceId of
        None \<Rightarrow> (Returns (Inl \<lparr>Typ = ErrorBadData, Err = NoSuchPreferenceId preferenceId\<rparr>), db)
      | Some preference \<Rightarrow>
          (if \<not> IsEnabledForScope preference UserAllowedScope
           then (Returns (Inl \<lparr>Typ = ErrorForbidden, Err = NotEnabledAtUserScope preferenceId\<rparr>), db)
           else
             (case IsValidValue preference preferenceValue of
                Panics \<Rightarrow> (Panics, db)
              | Returns (Some err) \<Rightarrow> (Returns (Inl err), db)
              | Returns None \<Rightarrow>
                  (case db_Exec_upsert (user_preference db) (user_fault db)
                          preferenceId preferenceValue userId of
                     (Some dberrr, tbl) \<Rightarrow>
                       (Returns (Inl \<lparr>Typ = ErrorExec, Err = SettingPreferenceValue dberrr\<rparr>),
                        db\<lparr>user_preference := tbl\<rparr>)
                   | (None, tbl) \<Rightarrow>
                       (Returns (Inr \<lparr>PreferenceId = preferenceId,
                                      PreferenceValue = preferenceValue\<rparr>),
                        db\<lparr>user_preference := tbl\<rparr>)))))"

text \<open>The body of the loop of \<open>GetAllUserPreferences\<close> over \<open>preferences\<close>.\<close>

fun GetAllUserPreferences_loop ::
  "Preference list \<Rightarrow> (string \<rightharpoonup> gvalue) \<Rightarrow> (string \<rightharpoonup> gvalue) \<Rightarrow>
   AllPreferences list \<Rightarrow> AllPreferences list" where
  "GetAllUserPreferences_loop [] preferenceOrgValueMap preferenceUserValueMap allUserPreferences =
     allUserPreferences"
| "GetAllUserPreferences_loop (preference # rest) preferenceOrgValueMap preferenceUserValueMap
     allUserPreferences =
     (if IsEnabledForScope preference UserAllowedScope then
        GetAllUserPreferences_loop rest preferenceOrgValueMap preferenceUserValueMap
          (allUserPreferences @
             [Preference.extend preference
                (AllPreferences.fields
                   (SanitizeValue preference
                      (case preferenceUserValueMap (Key preference) of
                         Some ok \<Rightarrow> ok
                       | None \<Rightarrow>
                           (if IsEnabledForScope preference OrgAllowedScope then
                              (case preferenceOrgValueMap (Key preference) of
                                 Some ok \<Rightarrow> ok
                               | None \<Rightarrow> DefaultValue preference)
                            else DefaultValue preference))))])
      else GetAllUserPreferences_loop rest preferenceOrgValueMap preferenceUserValueMap
             allUserPreferences)"

definition GetAllUserPreferences ::
  "Globals \<Rightarrow> DB \<Rightarrow> string \<Rightarrow> string \<Rightarrow> ApiError + AllPreferences list" where
  "GetAllUserPreferences g db orgId userId =
     (case db_Select (org_preference db) (org_fault db) orgId of
        Inl err \<Rightarrow> Inl \<lparr>Typ = ErrorExec, Err = GettingAllOrgValues err\<rparr>
      | Inr orgPreferenceValues \<Rightarrow>
          (case db_Select (user_preference db) (user_fault db) userId of
             Inl err \<Rightarrow> Inl \<lparr>Typ = ErrorExec, Err = GettingAllUserValues err\<rparr>
           | Inr userPreferenceValues \<Rightarrow>
               Inr (GetAllUserPreferences_loop (preferences g)
                      (valueMap_loop orgPreferenceValues Map.empty)
                      (valueMap_loop userPreferenceValues Map.empty) [])))"

section \<open>Example definitions and stores\<close>

text \<open>
  Definitions as \<open>preference.json\<close> can hold them; the JSON decoder gives a number as a
  float64, a missing \<open>allowedValues\<close> as the nil slice and \<open>[]\<close> as an empty one.
\<close>

definition pref_MAX_ALERTS :: Preference where
  "pref_MAX_ALERTS =
     \<lparr>Key = ''MAX_ALERTS'', Name = ''Max alerts'', Description = ''Alerts per rule'',
      ValueType = ''integer'', DefaultValue = GFloat64 (Fin 10), AllowedValues = None,
      IsDescreteValues = False, Range_r = \<lparr>Min_r = 1, Max_r = 100\<rparr>,
      AllowedScopes = Some [''org'']\<rparr>"

definition pref_DARK_MODE :: Preference where
  "pref_DARK_MODE =
     \<lparr>Key = ''DARK_MODE'', Name = ''Dark mode'', Description = ''Use the dark theme'',
      ValueType = ''boolean'', DefaultValue = GBool True, AllowedValues = None,
      IsDescreteValues = False, Range_r = \<lparr>Min_r = 0, Max_r = 0\<rparr>,
      AllowedScopes = Some [''org'', ''user'']\<rparr>"

definition pref_PAGE_SIZE :: Preference where
  "pref_PAGE_SIZE =
     \<lparr>Key = ''PAGE_SIZE'', Name = ''Page size'', Description = ''Rows per page'',
      ValueType = ''integer'', DefaultValue = GFloat64 (Fin 10),
      AllowedValues = Some [GFloat64 (Fin 10), GFloat64 (Fin 20), GFloat64 (Fin 50)],
      IsDescreteValues = True, Range_r = \<lparr>Min_r = 0, Max_r = 0\<rparr>,
      AllowedScopes = Some [''user'']\<rparr>"

definition pref_THEME :: Preference where
  "pref_THEME =
     \<lparr>Key = ''THEME'', Name = ''Theme'', Description = ''Name of the theme'',
      ValueType = ''string'', DefaultValue = GString ''light'', AllowedValues = Some [],
      IsDescreteValues = True, Range_r = \<lparr>Min_r = 0, Max_r = 0\<rparr>,
      AllowedScopes = Some [''user'']\<rparr>"

definition pref_LAYOUT :: Preference where
  "pref_LAYOUT =
     \<lparr>Key = ''LAYOUT'', Name = ''Layout'', Description = ''Layout of the panels'',
      ValueType = ''json'', DefaultValue = GNil, AllowedValues = Some [GString ''grid''],
      IsDescreteValues = True, Range_r = \<lparr>Min_r = 0, Max_r = 0\<rparr>,
      AllowedScopes = Some [''org'', ''user'']\<rparr>"

definition example_preferences :: "Preference list" where
  "example_preferences = [pref_MAX_ALERTS, pref_DARK_MODE, pref_PAGE_SIZE, pref_THEME, pref_LAYOUT]"

definition example_globals :: Globals where
  "example_globals =
     \<lparr>preferences = example_preferences,
      preferenceMap = [''MAX_ALERTS'' \<mapsto> pref_MAX_ALERTS, ''DARK_MODE'' \<mapsto> pref_DARK_MODE,
                       ''PAGE_SIZE'' \<mapsto> pref_PAGE_SIZE, ''THEME'' \<mapsto> pref_THEME,
                       ''LAYOUT'' \<mapsto> pref_LAYOUT]\<rparr>"

definition empty_db :: DB where
  "empty_db = \<lparr>org_preference = [], user_preference = [], org_fault = None, user_fault = None\<rparr>"

definition example_db :: DB where
  "example_db =
     \<lparr>org_preference = [((''DARK_MODE'', ''org1''), GString ''0''),
                         ((''MAX_ALERTS'', ''org1''), GString ''50'')],
      user_preference = [((''DARK_MODE'', ''user1''), GString ''1'')],
      org_fault = None, user_fault = None\<rparr>"

section \<open>Auxiliary facts\<close>

lemmas const_defs = PreferenceValueTypeInteger_def PreferenceValueTypeFloat_def
  PreferenceValueTypeString_def PreferenceValueTypeBoolean_def OrgAllowedScope_def
  UserAllowedScope_def

lemma InitDB_example: "InitDB example_preferences = Inr example_globals"
  by (simp add: InitDB_def example_preferences_def example_globals_def pref_MAX_ALERTS_def
      pref_DARK_MODE_def pref_PAGE_SIZE_def pref_THEME_def pref_LAYOUT_def)

lemma IsEnabledForScope_loop_iff:
  "IsEnabledForScope_loop scopes scope b \<longleftrightarrow> b \<or> scope \<in> set scopes"
  by (induction scopes arbitrary: b) auto

lemma IsEnabledForScope_iff:
  "IsEnabledForScope p scope \<longleftrightarrow> scope \<in> set (elems (AllowedScopes p))"
  by (simp add: IsEnabledForScope_def elems_def IsEnabledForScope_loop_iff split: option.splits)

subsection \<open>Conversions between float64 and int64\<close>

lemma round_to_53_small: "\<bar>n\<bar> < 2 ^ 53 \<Longrightarrow> round_to_53 n = n"
proof -
  assume a: "\<bar>n\<bar> < 2 ^ 53"
  have "bitlen \<bar>n\<bar> \<le> 53" using a by (simp add: bitlen_le_iff_power)
  then have "nat (bitlen \<bar>n\<bar> - 53) = 0" by simp
  then show ?thesis by (simp add: round_to_53_def Let_def mult_sgn_abs)
qed

lemma round_to_53_exact:
  assumes m: "\<bar>m\<bar> < 2 ^ 53"
  shows "round_to_53 (m * 2 ^ e) = m * 2 ^ e"
proof (cases "m = 0")
  case True
  then show ?thesis by (simp add: round_to_53_def)
next
  case False
  define a where "a = \<bar>m * 2 ^ e\<bar>"
  define k where "k = nat (bitlen a - 53)"
  have a_eq: "a = \<bar>m\<bar> * 2 ^ e" by (simp add: a_def abs_mult)
  have mpos: "0 < \<bar>m\<bar>" using False by simp
  have bl: "bitlen a = bitlen \<bar>m\<bar> + int e" unfolding a_eq using mpos by simp
  have "bitlen \<bar>m\<bar> \<le> 53" using m by (simp add: bitlen_le_iff_power)
  then have "k \<le> e" unfolding k_def bl by simp
  then obtain d where e: "e = k + d" using le_Suc_ex by blast
  have aa: "a = (\<bar>m\<bar> * 2 ^ d) * 2 ^ k"
    by (simp add: a_eq e power_add mult.commute mult.left_commute)
  have r0: "a mod 2 ^ k = 0" by (simp add: aa)
  have q: "a div 2 ^ k * 2 ^ k = a" using r0 by (simp add: aa)
  have "round_to_53 (m * 2 ^ e) = sgn (m * 2 ^ e) * (a div 2 ^ k * 2 ^ k)"
    using r0 by (simp add: round_to_53_def Let_def a_def[symmetric] k_def[symmetric])
  also have "\<dots> = sgn (m * 2 ^ e) * a" by (simp add: q)
  also have "\<dots> = m * 2 ^ e" by (simp add: a_def mult_sgn_abs)
  finally show ?thesis .
qed

lemma round_to_53_float64:
  assumes "is_float64 (of_int n)"
  shows "round_to_53 n = n"
proof -
  from assms obtain m e where m: "\<bar>m\<bar> < (2::int) ^ 53"
    and d: "(of_int n :: rat) = of_int m * 2 ^ e \<or> (of_int n :: rat) = of_int m / 2 ^ e"
    unfolding is_float64_def by blast
  from d show ?thesis
  proof
    assume "(of_int n :: rat) = of_int m * 2 ^ e"
    then have "(of_int n :: rat) = of_int (m * 2 ^ e)" by simp
    then have "n = m * 2 ^ e" using of_int_eq_iff by blast
    then show ?thesis using round_to_53_exact [OF m] by simp
  next
    assume "(of_int n :: rat) = of_int m / 2 ^ e"
    then have "(of_int n :: rat) * 2 ^ e = of_int m" by simp
    then have "(of_int (n * 2 ^ e) :: rat) = of_int m" by simp
    then have nm: "n * 2 ^ e = m" using of_int_eq_iff by blast
    have "\<bar>n\<bar> \<le> \<bar>n\<bar> * 2 ^ e" by (simp add: mult_le_cancel_left1)
    also have "\<dots> = \<bar>m\<bar>" unfolding nm [symmetric] by (simp add: abs_mult)
    finally have "\<bar>n\<bar> < 2 ^ 53" using m by simp
    then show ?thesis by (rule round_to_53_small)
  qed
qed

lemma is_float64_of_int: "\<bar>n\<bar> < 2 ^ 53 \<Longrightarrow> is_float64 (of_int n)"
  unfolding is_float64_def by (rule exI [of _ n], rule exI [of _ 0]) simp

lemma trunc_rat_of_int: "trunc_rat (of_int n) = n"
  by (simp add: trunc_rat_def)

lemma sint_word_of_int_64:
  "- 9223372036854775808 \<le> n \<Longrightarrow> n < 9223372036854775808 \<Longrightarrow>
   sint (word_of_int n :: 64 word) = n"
  by (simp add: signed_of_int signed_take_bit_int_eq_self)

text \<open>
  The coercion of lines 62 to 69 on a float64 whose truncation fits an int64: the float
  passes exactly when it has no fractional part, as the integer it denotes.
\<close>

lemma integerValue_float:
  assumes lo: "- 9223372036854775808 \<le> trunc_rat r" and hi: "trunc_rat r < 9223372036854775808"
    and fl: "is_float64 r"
  shows "integerValue (GFloat64 (Fin r)) =
    (if r \<in> \<int> then Some (word_of_int (trunc_rat r)) else None)"
proof (cases "r \<in> \<int>")
  case True
  then obtain n where r: "r = of_int n" by (auto simp: Ints_def)
  have rn: "round_to_53 n = n" using fl round_to_53_float64 unfolding r by blast
  show ?thesis using lo hi rn
    by (simp add: r integerValue_def int64_of_float64_def float64_of_int64_def
        sint_word_of_int_64 trunc_rat_of_int)
next
  case False
  have "of_int (round_to_53 (trunc_rat r)) \<noteq> r" using False by (metis Ints_of_int)
  then show ?thesis using lo hi False
    by (auto simp add: integerValue_def int64_of_float64_def float64_of_int64_def
        sint_word_of_int_64)
qed

subsection \<open>The loop over the allowed values\<close>

lemma checkIfInAllowedValues_loop_eq:
  "checkIfInAllowedValues_loop v avs b =
     (if \<exists>a\<in>set avs. iface_eq a v = Panics then Panics
      else Returns (b \<or> (\<exists>a\<in>set avs. iface_eq a v = Returns True)))"
proof (induction avs arbitrary: b)
  case Nil
  then show ?case by simp
next
  case (Cons a avs)
  show ?case
  proof (cases "iface_eq a v")
    case Panics
    then show ?thesis by simp
  next
    case (Returns c)
    then show ?thesis using Cons.IH [of "if c then True else b"] by auto
  qed
qed

lemma iface_eq_scalar_no_panic:
  "iface_eq a (GInt64 n) \<noteq> Panics" "iface_eq a (GFloat64 f) \<noteq> Panics"
  by (cases a; simp)+

lemma integerValue_float_of_int:
  assumes "\<bar>n\<bar> < 2 ^ 53"
  shows "integerValue (GFloat64 (Fin (of_int n))) = Some (word_of_int n)"
proof -
  have "\<bar>n\<bar> < 9223372036854775808" using assms by simp
  then have "- 9223372036854775808 \<le> trunc_rat (of_int n)"
    and "trunc_rat (of_int n) < 9223372036854775808"
    by (simp_all add: trunc_rat_of_int)
  then show ?thesis
    using integerValue_float [of "of_int n"] is_float64_of_int [OF assms]
    by (simp add: trunc_rat_of_int)
qed

lemma integerValue_4: "integerValue (GFloat64 (Fin 4)) = Some 4"
  using integerValue_float_of_int [of 4] by simp

lemma integerValue_20: "integerValue (GFloat64 (Fin 20)) = Some 20"
  using integerValue_float_of_int [of 20] by simp

text \<open>The negative zero is coerced to the integer 0.\<close>

lemma integerValue_NegZero: "integerValue (GFloat64 NegZero) = Some 0"
  by (simp add: integerValue_def int64_of_float64_def float64_of_int64_def round_to_53_def)

text \<open>
  With the value taken for a conversion that does not fit, a float whose integer part no
  int64 holds, an infinity or NaN does not pass the coercion.
\<close>

lemma integerValue_float_unfit:
  "\<not> float64_fits_int64 f \<Longrightarrow> integerValue (GFloat64 f) = None"
proof (cases f)
  case (Fin r)
  assume "\<not> float64_fits_int64 f"
  then have out: "\<not> (- 9223372036854775808 \<le> trunc_rat r \<and> trunc_rat r < 9223372036854775808)"
    by (simp add: Fin float64_fits_int64_def)
  have s: "sint (0x8000000000000000 :: 64 word) = - 9223372036854775808" by simp
  have "round_to_53 (- 9223372036854775808) = - 9223372036854775808"
    using round_to_53_exact [of "- 1" 63] by simp
  then have conv: "float64_of_int64 0x8000000000000000 = Fin (- 9223372036854775808)"
    by (simp add: float64_of_int64_def s)
  have "r \<noteq> - 9223372036854775808"
  proof
    assume "r = - 9223372036854775808"
    then have "trunc_rat r = - 9223372036854775808"
      using trunc_rat_of_int [of "- 9223372036854775808"] by simp
    with out show False by simp
  qed
  moreover have "int64_of_float64 (Fin r) = 0x8000000000000000"
    using out by (auto simp add: int64_of_float64_def)
  ultimately show ?thesis by (simp add: Fin integerValue_def conv)
qed (simp_all add: float64_fits_int64_def integerValue_def int64_of_float64_def
    float64_of_int64_def)

subsection \<open>The text the column holds\<close>

lemma nat_text_digit: "n < 10 \<Longrightarrow> nat_text n = [''0123456789'' ! n]"
  by (simp add: nat_text.simps [of n])

lemma int_text_50: "int_text 50 = ''50''"
  by (simp add: int_text_def nat_text.simps [of 50] nat_text_digit)

lemma int_text_minus_7: "int_text (- 7) = ''-7''"
  by (simp add: int_text_def nat_text_digit)

lemma real_text_4: "real_text (Fin 4) = ''4.0''"
proof -
  have "\<lfloor>4 :: rat\<rfloor> = 4" by simp
  then show ?thesis by (simp add: real_text_def int_text_def nat_text_digit)
qed

lemma column_of_argument_examples:
  "column_of_argument (GFloat64 (Fin 4)) = Inr (GString ''4.0'')"
  "column_of_argument (GInt64 50) = Inr (GString ''50'')"
  "column_of_argument (GBool True) = Inr (GString ''1'')"
  "column_of_argument (GBool False) = Inr (GString ''0'')"
  "column_of_argument (GString ''dark'') = Inr (GString ''dark'')"
  by (simp_all add: column_of_argument_def real_text_4 int_text_50)

subsection \<open>What a set operation stores and returns\<close>

text \<open>
  A set operation that succeeds returns the candidate as it was submitted, and the row of
  its key holds what the column makes of that same candidate.
\<close>

lemma Update_returns_raw:
  "(UpdateOrgPreference g db preferenceId v orgId = (Returns (Inr kv), db') \<longrightarrow>
      PreferenceValue kv = v \<and>
      map_option Inr (map_of (org_preference db') (preferenceId, orgId)) =
        Some (column_of_argument v)) \<and>
   (UpdateUserPreference g db preferenceId v userId = (Returns (Inr kv), db') \<longrightarrow>
      PreferenceValue kv = v \<and>
      map_option Inr (map_of (user_preference db') (preferenceId, userId)) =
        Some (column_of_argument v))"
  by (auto simp add: UpdateOrgPreference_def UpdateUserPreference_def db_Exec_upsert_def
      update_Some_unfold
      split: option.splits if_splits outcome.splits prod.splits sum.splits)

text \<open>
  Setting \<open>MAX_ALERTS\<close> to the float 4 returns the float 4 and leaves the text \<open>"4.0"\<close>
  in the column, which the getter then returns; setting \<open>DARK_MODE\<close> to true for a user
  leaves the text \<open>"1"\<close>, which the getter returns as true.
\<close>

lemma UpdateOrgPreference_float_4:
  "UpdateOrgPreference example_globals empty_db ''MAX_ALERTS'' (GFloat64 (Fin 4)) ''org1'' =
     (Returns (Inr \<lparr>PreferenceId = ''MAX_ALERTS'', PreferenceValue = GFloat64 (Fin 4)\<rparr>),
      empty_db\<lparr>org_preference := [((''MAX_ALERTS'', ''org1''), GString ''4.0'')]\<rparr>)"
proof -
  have v: "IsValidValue pref_MAX_ALERTS (GFloat64 (Fin 4)) = Returns None"
    by (simp add: IsValidValue_def IsValidValue_switch_def integerValue_4 pref_MAX_ALERTS_def
        const_defs)
  have e: "IsEnabledForScope pref_MAX_ALERTS OrgAllowedScope"
    by (simp add: IsEnabledForScope_def pref_MAX_ALERTS_def const_defs)
  show ?thesis
    by (simp add: UpdateOrgPreference_def example_globals_def v e db_Exec_upsert_def
        empty_db_def column_of_argument_examples)
qed

lemma GetOrgPreference_after_float_4:
  "GetOrgPreference example_globals
     (empty_db\<lparr>org_preference := [((''MAX_ALERTS'', ''org1''), GString ''4.0'')]\<rparr>)
     ''MAX_ALERTS'' ''org1'' =
   Inr \<lparr>PreferenceId = ''MAX_ALERTS'', PreferenceValue = GString ''4.0''\<rparr>"
  by (simp add: GetOrgPreference_def example_globals_def empty_db_def pref_MAX_ALERTS_def
      IsEnabledForScope_def const_defs db_Get_def SanitizeValue_def)

lemma UpdateUserPreference_true:
  "UpdateUserPreference example_globals empty_db ''DARK_MODE'' (GBool True) ''user1'' =
     (Returns (Inr \<lparr>PreferenceId = ''DARK_MODE'', PreferenceValue = GBool True\<rparr>),
      empty_db\<lparr>user_preference := [((''DARK_MODE'', ''user1''), GString ''1'')]\<rparr>)"
  by (simp add: UpdateUserPreference_def example_globals_def empty_db_def pref_DARK_MODE_def
      IsEnabledForScope_def const_defs IsValidValue_def IsValidValue_switch_def
      db_Exec_upsert_def column_of_argument_examples)

lemma GetUserPreference_after_true:
  "GetUserPreference example_globals
     (empty_db\<lparr>user_preference := [((''DARK_MODE'', ''user1''), GString ''1'')]\<rparr>)
     ''DARK_MODE'' ''org1'' ''user1'' =
   Inr \<lparr>PreferenceId = ''DARK_MODE'', PreferenceValue = GBool True\<rparr>"
  by (simp add: GetUserPreference_def example_globals_def empty_db_def pref_DARK_MODE_def
      IsEnabledForScope_def const_defs db_Get_def SanitizeValue_def)

section \<open>Resolution of a user preference\<close>

text \<open>
  C1. For a registered definition enabled at user and at org scope, and a store that
  answers both queries, \<open>GetUserPreference\<close> selects the user row when there is one,
  otherwise the org row when there is one, otherwise the default, and returns the selected
  value passed through \<open>SanitizeValue\<close>.
\<close>

theorem GetUserPreference_precedence:
  "preferenceMap g preferenceId = Some p \<Longrightarrow>
   IsEnabledForScope p UserAllowedScope \<Longrightarrow> IsEnabledForScope p OrgAllowedScope \<Longrightarrow>
   org_fault db = None \<Longrightarrow> user_fault db = None \<Longrightarrow>
   GetUserPreference g db preferenceId orgId userId =
     Inr \<lparr>PreferenceId = preferenceId,
          PreferenceValue = SanitizeValue p
            (case map_of (user_preference db) (preferenceId, userId) of
               Some u \<Rightarrow> u
             | None \<Rightarrow>
                 (case map_of (org_preference db) (preferenceId, orgId) of
                    Some ov \<Rightarrow> ov
                  | None \<Rightarrow> DefaultValue p))\<rparr>"
  by (simp add: GetUserPreference_def db_Get_def split: option.splits)

text \<open>
  The theorem at \<open>DARK_MODE\<close>: user1 has a row \<open>"1"\<close> and reads true over the org row
  \<open>"0"\<close>; user2 has no row and reads the org row, false.
\<close>

theorem GetUserPreference_precedence_witness:
  "preferenceMap example_globals ''DARK_MODE'' = Some pref_DARK_MODE \<and>
   IsEnabledForScope pref_DARK_MODE UserAllowedScope \<and>
   IsEnabledForScope pref_DARK_MODE OrgAllowedScope \<and>
   org_fault example_db = None \<and> user_fault example_db = None \<and>
   GetUserPreference example_globals example_db ''DARK_MODE'' ''org1'' ''user1'' =
     Inr \<lparr>PreferenceId = ''DARK_MODE'', PreferenceValue = GBool True\<rparr> \<and>
   GetUserPreference example_globals example_db ''DARK_MODE'' ''org1'' ''user2'' =
     Inr \<lparr>PreferenceId = ''DARK_MODE'', PreferenceValue = GBool False\<rparr>"
proof -
  have h1: "preferenceMap example_globals ''DARK_MODE'' = Some pref_DARK_MODE"
    by (simp add: example_globals_def)
  have h2: "IsEnabledForScope pref_DARK_MODE UserAllowedScope"
    by (simp add: IsEnabledForScope_def pref_DARK_MODE_def const_defs)
  have h3: "IsEnabledForScope pref_DARK_MODE OrgAllowedScope"
    by (simp add: IsEnabledForScope_def pref_DARK_MODE_def const_defs)
  have h4: "org_fault example_db = None" and h5: "user_fault example_db = None"
    by (simp_all add: example_db_def)
  show ?thesis
    using h1 h2 h3 h4 h5
      GetUserPreference_precedence [OF h1 h2 h3 h4 h5, of "''org1''" "''user1''"]
      GetUserPreference_precedence [OF h1 h2 h3 h4 h5, of "''org1''" "''user2''"]
    by (simp add: example_db_def SanitizeValue_def pref_DARK_MODE_def const_defs)
qed

section \<open>Validation without a domain\<close>

text \<open>
  C6. For a string-, float- or boolean-typed definition with \<open>IsDescreteValues\<close> false,
  \<open>IsValidValue\<close> accepts every candidate of the matching runtime type: every string,
  every float64 (no range is checked, whatever \<open>Range\<close> holds) and every bool.
\<close>

theorem IsValidValue_no_domain_check:
  "\<not> IsDescreteValues p \<Longrightarrow>
   (ValueType p = PreferenceValueTypeString \<longrightarrow> IsValidValue p (GString s) = Returns None) \<and>
   (ValueType p = PreferenceValueTypeFloat \<longrightarrow> IsValidValue p (GFloat64 f) = Returns None) \<and>
   (ValueType p = PreferenceValueTypeBoolean \<longrightarrow> IsValidValue p (GBool b) = Returns None)"
  by (simp add: IsValidValue_def IsValidValue_switch_def const_defs)

theorem IsValidValue_no_domain_check_witness:
  "\<not> IsDescreteValues pref_DARK_MODE \<and>
   ValueType pref_DARK_MODE = PreferenceValueTypeBoolean \<and>
   IsValidValue pref_DARK_MODE (GBool False) = Returns None"
  using IsValidValue_no_domain_check [of pref_DARK_MODE "''x''" NaN False]
  by (simp add: const_defs pref_DARK_MODE_def)

section \<open>Scopes and the set operations\<close>

text \<open>
  C7. For a registered definition whose \<open>AllowedScopes\<close> does not hold the requested
  scope, the set operation of that scope (\<open>UpdateOrgPreference\<close> for org,
  \<open>UpdateUserPreference\<close> for user) returns the forbidden error and leaves the store as
  it was.
\<close>

theorem Update_scope_forbidden:
  "preferenceMap g preferenceId = Some p \<Longrightarrow>
   (OrgAllowedScope \<notin> set (elems (AllowedScopes p)) \<longrightarrow>
      UpdateOrgPreference g db preferenceId v orgId =
        (Returns (Inl \<lparr>Typ = ErrorForbidden, Err = NotEnabledAtOrgScope preferenceId\<rparr>), db)) \<and>
   (UserAllowedScope \<notin> set (elems (AllowedScopes p)) \<longrightarrow>
      UpdateUserPreference g db preferenceId v userId =
        (Returns (Inl \<lparr>Typ = ErrorForbidden, Err = NotEnabledAtUserScope preferenceId\<rparr>), db))"
  by (simp add: UpdateOrgPreference_def UpdateUserPreference_def IsEnabledForScope_iff)

theorem Update_scope_forbidden_witness:
  "preferenceMap example_globals ''MAX_ALERTS'' = Some pref_MAX_ALERTS \<and>
   UserAllowedScope \<notin> set (elems (AllowedScopes pref_MAX_ALERTS)) \<and>
   UpdateUserPreference example_globals example_db ''MAX_ALERTS'' (GInt64 50) ''user1'' =
     (Returns (Inl \<lparr>Typ = ErrorForbidden, Err = NotEnabledAtUserScope ''MAX_ALERTS''\<rparr>),
      example_db) \<and>
   preferenceMap example_globals ''THEME'' = Some pref_THEME \<and>
   OrgAllowedScope \<notin> set (elems (AllowedScopes pref_THEME)) \<and>
   UpdateOrgPreference example_globals example_db ''THEME'' (GString ''dark'') ''org1'' =
     (Returns (Inl \<lparr>Typ = ErrorForbidden, Err = NotEnabledAtOrgScope ''THEME''\<rparr>),
      example_db)"
  using Update_scope_forbidden [of example_globals "''MAX_ALERTS''" pref_MAX_ALERTS example_db
      "GInt64 50" "''org1''" "''user1''"]
    Update_scope_forbidden [of example_globals "''THEME''" pref_THEME example_db
      "GString ''dark''" "''org1''" "''user1''"]
  by (simp add: const_defs example_globals_def pref_MAX_ALERTS_def pref_THEME_def elems_def)

section \<open>Sanitization\<close>

text \<open>
  The claim C9 as it is written fails: the string \<open>"1"\<close> is sanitized to true, and true,
  not being the string \<open>"1"\<close>, is sanitized to false.
\<close>

theorem SanitizeValue_not_idempotent:
  "SanitizeValue pref_DARK_MODE (SanitizeValue pref_DARK_MODE (GString ''1''))
     \<noteq> SanitizeValue pref_DARK_MODE (GString ''1'')"
  by (simp add: SanitizeValue_def const_defs pref_DARK_MODE_def)

text \<open>
  C9, amended. For a boolean-typed definition \<open>SanitizeValue\<close> maps the string \<open>"1"\<close> to
  true and every other value, the boolean true among them, to false; so sanitizing twice
  always gives false, and agrees with sanitizing once exactly for the values other than
  the string \<open>"1"\<close>. For a definition of any other type the value passes unchanged.
\<close>

theorem SanitizeValue_boolean:
  "(ValueType p = PreferenceValueTypeBoolean \<longrightarrow>
      SanitizeValue p v = GBool (v = GString ''1'') \<and>
      SanitizeValue p (SanitizeValue p v) = GBool False \<and>
      (SanitizeValue p (SanitizeValue p v) = SanitizeValue p v \<longleftrightarrow> v \<noteq> GString ''1'')) \<and>
   (ValueType p \<noteq> PreferenceValueTypeBoolean \<longrightarrow> SanitizeValue p v = v)"
  by (simp add: SanitizeValue_def)

theorem SanitizeValue_boolean_witness:
  "ValueType pref_DARK_MODE = PreferenceValueTypeBoolean \<and>
   SanitizeValue pref_DARK_MODE (GString ''1'') = GBool True \<and>
   SanitizeValue pref_DARK_MODE (SanitizeValue pref_DARK_MODE (GString ''1'')) = GBool False \<and>
   ValueType pref_MAX_ALERTS \<noteq> PreferenceValueTypeBoolean \<and>
   SanitizeValue pref_MAX_ALERTS (GString ''50'') = GString ''50''"
  using SanitizeValue_boolean [of pref_DARK_MODE "GString ''1''"]
    SanitizeValue_boolean [of pref_MAX_ALERTS "GString ''50''"]
  by (simp add: SanitizeValue_def const_defs pref_DARK_MODE_def pref_MAX_ALERTS_def)

section \<open>The range of an integer preference\<close>

text \<open>
  C4. For an integer-typed definition with \<open>IsDescreteValues\<close> false and a candidate that
  the type check coerces to the int64 \<open>val\<close>, \<open>IsValidValue\<close> accepts exactly when
  \<open>Range.Min \<le> val \<le> Range.Max\<close>, both bounds included, and otherwise returns the range
  error holding \<open>Min\<close> and \<open>Max\<close>; on that error the set operation of an enabled scope
  returns it and leaves the store as it was.
\<close>

theorem IsValidValue_integer_range:
  assumes "ValueType p = PreferenceValueTypeInteger" and "\<not> IsDescreteValues p"
    and "integerValue v = Some val"
  shows "IsValidValue p v =
      Returns (if sint (Min_r (Range_r p)) \<le> sint val \<and> sint val \<le> sint (Max_r (Range_r p))
               then None
               else Some \<lparr>Typ = ErrorBadData,
                          Err = NotInRange (Min_r (Range_r p)) (Max_r (Range_r p))\<rparr>) \<and>
    (\<not> (sint (Min_r (Range_r p)) \<le> sint val \<and> sint val \<le> sint (Max_r (Range_r p))) \<longrightarrow>
     preferenceMap g preferenceId = Some p \<longrightarrow>
       (IsEnabledForScope p OrgAllowedScope \<longrightarrow>
          UpdateOrgPreference g db preferenceId v orgId =
            (Returns (Inl \<lparr>Typ = ErrorBadData,
                           Err = NotInRange (Min_r (Range_r p)) (Max_r (Range_r p))\<rparr>), db)) \<and>
       (IsEnabledForScope p UserAllowedScope \<longrightarrow>
          UpdateUserPreference g db preferenceId v userId =
            (Returns (Inl \<lparr>Typ = ErrorBadData,
                           Err = NotInRange (Min_r (Range_r p)) (Max_r (Range_r p))\<rparr>), db)))"
proof -
  have v: "IsValidValue p v =
      Returns (if sint (Min_r (Range_r p)) \<le> sint val \<and> sint val \<le> sint (Max_r (Range_r p))
               then None
               else Some \<lparr>Typ = ErrorBadData,
                          Err = NotInRange (Min_r (Range_r p)) (Max_r (Range_r p))\<rparr>)"
    using assms by (auto simp add: IsValidValue_def IsValidValue_switch_def)
  show ?thesis
    by (simp add: v UpdateOrgPreference_def UpdateUserPreference_def)
qed

text \<open>The theorem at \<open>MAX_ALERTS\<close>, of range 1 to 100, and the candidate 150.\<close>

theorem IsValidValue_integer_range_witness:
  "ValueType pref_MAX_ALERTS = PreferenceValueTypeInteger \<and>
   \<not> IsDescreteValues pref_MAX_ALERTS \<and>
   integerValue (GInt64 150) = Some 150 \<and>
   IsValidValue pref_MAX_ALERTS (GInt64 150) =
     Returns (Some \<lparr>Typ = ErrorBadData, Err = NotInRange 1 100\<rparr>) \<and>
   UpdateOrgPreference example_globals example_db ''MAX_ALERTS'' (GInt64 150) ''org1'' =
     (Returns (Inl \<lparr>Typ = ErrorBadData, Err = NotInRange 1 100\<rparr>), example_db)"
proof -
  have h1: "ValueType pref_MAX_ALERTS = PreferenceValueTypeInteger"
    by (simp add: pref_MAX_ALERTS_def const_defs)
  have h2: "\<not> IsDescreteValues pref_MAX_ALERTS" by (simp add: pref_MAX_ALERTS_def)
  have h3: "integerValue (GInt64 150) = Some 150" by (simp add: integerValue_def)
  have h4: "preferenceMap example_globals ''MAX_ALERTS'' = Some pref_MAX_ALERTS"
    by (simp add: example_globals_def)
  have h5: "IsEnabledForScope pref_MAX_ALERTS OrgAllowedScope"
    by (simp add: IsEnabledForScope_def pref_MAX_ALERTS_def const_defs)
  have r: "Min_r (Range_r pref_MAX_ALERTS) = 1" "Max_r (Range_r pref_MAX_ALERTS) = 100"
    by (simp_all add: pref_MAX_ALERTS_def)
  show ?thesis
    using h1 h2 h3 h4 h5
      IsValidValue_integer_range [OF h1 h2 h3, of example_globals "''MAX_ALERTS''" example_db
        "''org1''" "''user1''"]
    by (simp add: r)
qed

section \<open>Definitions of an unknown value type\<close>

text \<open>
  C10. For a definition whose \<open>ValueType\<close> is none of \<open>"integer"\<close>, \<open>"float"\<close>,
  \<open>"string"\<close> and \<open>"boolean"\<close>, \<open>IsValidValue\<close> checks no type: no candidate gets the
  type mismatch, every candidate is accepted when \<open>IsDescreteValues\<close> is false (or
  \<open>AllowedValues\<close> is nil), and otherwise the result is the one of the comparison with
  the allowed values alone.
\<close>

theorem IsValidValue_unknown_type:
  "ValueType p \<noteq> PreferenceValueTypeInteger \<Longrightarrow> ValueType p \<noteq> PreferenceValueTypeFloat \<Longrightarrow>
   ValueType p \<noteq> PreferenceValueTypeString \<Longrightarrow> ValueType p \<noteq> PreferenceValueTypeBoolean \<Longrightarrow>
   IsValidValue p v \<noteq> Returns (Some (ErrorValueTypeMismatch p)) \<and>
   (\<not> IsDescreteValues p \<longrightarrow> IsValidValue p v = Returns None) \<and>
   (AllowedValues p = None \<longrightarrow> IsValidValue p v = Returns None) \<and>
   (IsDescreteValues p \<and> AllowedValues p \<noteq> None \<longrightarrow>
      IsValidValue p v =
        (case checkIfInAllowedValues v p of
           Panics \<Rightarrow> Panics
         | Returns b \<Rightarrow>
             Returns (if b then None
                      else Some \<lparr>Typ = ErrorBadData,
                                 Err = NotInAllowedValues (AllowedValues p)\<rparr>)))"
  by (auto simp add: IsValidValue_def IsValidValue_switch_def ErrorValueTypeMismatch_def
      split: outcome.splits)

text \<open>
  The theorem at \<open>LAYOUT\<close>, of type \<open>"json"\<close>: a string and a map both reach the
  comparison with the allowed values.
\<close>

theorem IsValidValue_unknown_type_witness:
  "ValueType pref_LAYOUT \<noteq> PreferenceValueTypeInteger \<and>
   ValueType pref_LAYOUT \<noteq> PreferenceValueTypeFloat \<and>
   ValueType pref_LAYOUT \<noteq> PreferenceValueTypeString \<and>
   ValueType pref_LAYOUT \<noteq> PreferenceValueTypeBoolean \<and>
   IsDescreteValues pref_LAYOUT \<and> AllowedValues pref_LAYOUT \<noteq> None \<and>
   IsValidValue pref_LAYOUT (GString ''grid'') = Returns None \<and>
   IsValidValue pref_LAYOUT (GMap [(''rows'', GFloat64 (Fin 2))]) =
     Returns (Some \<lparr>Typ = ErrorBadData, Err = NotInAllowedValues (Some [GString ''grid''])\<rparr>)"
  using IsValidValue_unknown_type [of pref_LAYOUT "GString ''grid''"]
    IsValidValue_unknown_type [of pref_LAYOUT "GMap [(''rows'', GFloat64 (Fin 2))]"]
  by (simp add: const_defs pref_LAYOUT_def checkIfInAllowedValues_def elems_def)

section \<open>The allowed values\<close>

text \<open>
  The claim C5 as it is written fails on an allowed set that is empty without being nil
  (\<open>"allowedValues": []\<close>): the check is applied, and rejects the candidate.
\<close>

theorem IsValidValue_empty_allowed_rejects:
  "IsDescreteValues pref_THEME \<and> elems (AllowedValues pref_THEME) = [] \<and>
   IsValidValue pref_THEME (GString ''dark'') =
     Returns (Some \<lparr>Typ = ErrorBadData, Err = NotInAllowedValues (Some [])\<rparr>)"
  by (simp add: pref_THEME_def elems_def IsValidValue_def IsValidValue_switch_def const_defs
      checkIfInAllowedValues_def)

text \<open>
  C5, amended. The check of the allowed values is applied exactly when
  \<open>IsDescreteValues\<close> is true and \<open>AllowedValues\<close> is not nil. The error listing the
  allowed values is returned in that case only; when \<open>IsDescreteValues\<close> is false or
  \<open>AllowedValues\<close> is nil the result is the one of the type switch; and when it is
  applied to a candidate that passed the switch, the candidate is accepted exactly when
  some allowed value equals it as an interface value (same dynamic type, equal value), and
  is rejected with the error listing the allowed values otherwise, so always when the
  list is empty. The comparison panics when an allowed value and the candidate share a
  slice or map type.
\<close>

theorem IsValidValue_allowed_values:
  "(IsValidValue p v = Returns (Some \<lparr>Typ = ErrorBadData, Err = NotInAllowedValues avs'\<rparr>) \<longrightarrow>
      IsDescreteValues p \<and> AllowedValues p \<noteq> None \<and> avs' = AllowedValues p) \<and>
   (\<not> IsDescreteValues p \<or> AllowedValues p = None \<longrightarrow>
      IsValidValue p v = Returns (IsValidValue_switch p v)) \<and>
   (IsDescreteValues p \<longrightarrow> AllowedValues p = Some avs \<longrightarrow> IsValidValue_switch p v = None \<longrightarrow>
      IsValidValue p v =
        (if \<exists>a\<in>set avs. iface_eq a v = Panics then Panics
         else Returns (if \<exists>a\<in>set avs. iface_eq a v = Returns True then None
                       else Some \<lparr>Typ = ErrorBadData,
                                  Err = NotInAllowedValues (Some avs)\<rparr>)))"
proof -
  have sw: "IsValidValue_switch p v \<noteq> Some \<lparr>Typ = ErrorBadData, Err = NotInAllowedValues avs'\<rparr>"
    by (auto simp add: IsValidValue_switch_def ErrorValueTypeMismatch_def
        split: option.splits gvalue.splits if_splits)
  have a: "IsValidValue p v = Returns (Some \<lparr>Typ = ErrorBadData, Err = NotInAllowedValues avs'\<rparr>) \<longrightarrow>
      IsDescreteValues p \<and> AllowedValues p \<noteq> None \<and> avs' = AllowedValues p"
    using sw by (auto simp add: IsValidValue_def split: option.splits outcome.splits if_splits)
  have b: "\<not> IsDescreteValues p \<or> AllowedValues p = None \<longrightarrow>
      IsValidValue p v = Returns (IsValidValue_switch p v)"
    by (auto simp add: IsValidValue_def split: option.splits)
  have c: "IsDescreteValues p \<longrightarrow> AllowedValues p = Some avs \<longrightarrow> IsValidValue_switch p v = None \<longrightarrow>
      IsValidValue p v =
        (if \<exists>a\<in>set avs. iface_eq a v = Panics then Panics
         else Returns (if \<exists>a\<in>set avs. iface_eq a v = Returns True then None
                       else Some \<lparr>Typ = ErrorBadData,
                                  Err = NotInAllowedValues (Some avs)\<rparr>))"
    by (simp add: IsValidValue_def checkIfInAllowedValues_def elems_def
        checkIfInAllowedValues_loop_eq)
  show ?thesis using a b c by blast
qed

text \<open>
  The theorem at \<open>LAYOUT\<close>, whose allowed values are the string \<open>"grid"\<close> alone, and at
  \<open>THEME\<close> with its allowed values made nil.
\<close>

theorem IsValidValue_allowed_values_witness:
  "IsDescreteValues pref_LAYOUT \<and> AllowedValues pref_LAYOUT = Some [GString ''grid''] \<and>
   IsValidValue_switch pref_LAYOUT (GString ''grid'') = None \<and>
   IsValidValue_switch pref_LAYOUT (GString ''rows'') = None \<and>
   IsValidValue pref_LAYOUT (GString ''grid'') = Returns None \<and>
   IsValidValue pref_LAYOUT (GString ''rows'') =
     Returns (Some \<lparr>Typ = ErrorBadData, Err = NotInAllowedValues (Some [GString ''grid''])\<rparr>) \<and>
   AllowedValues (pref_THEME\<lparr>AllowedValues := None\<rparr>) = None \<and>
   IsValidValue (pref_THEME\<lparr>AllowedValues := None\<rparr>) (GString ''dark'') = Returns None"
  using IsValidValue_allowed_values [of pref_LAYOUT "GString ''grid''" _ "[GString ''grid'']"]
    IsValidValue_allowed_values [of pref_LAYOUT "GString ''rows''"
      "Some [GString ''grid'']" "[GString ''grid'']"]
    IsValidValue_allowed_values [of "pref_THEME\<lparr>AllowedValues := None\<rparr>" "GString ''dark''"]
  by (simp add: pref_THEME_def pref_LAYOUT_def IsValidValue_switch_def const_defs)

section \<open>Integer preferences and floats\<close>

text \<open>
  The claim C3 as it is written fails where it has the float taken as the integer for
  the check of the allowed values and for the value accepted. With the allowed values
  10, 20 and 50 as the JSON decoder gives them, the float 20 is accepted and the int64 20
  is rejected: the comparison is on the candidate as submitted. And setting
  \<open>MAX_ALERTS\<close> to the float 4 returns the float 4, not the int64 4, and leaves in the
  column the text of the float, \<open>"4.0"\<close>, not the text of the integer.
\<close>

theorem IsValidValue_float_not_coerced:
  "IsValidValue pref_PAGE_SIZE (GFloat64 (Fin 20)) = Returns None \<and>
   IsValidValue pref_PAGE_SIZE (GInt64 20) =
     Returns (Some \<lparr>Typ = ErrorBadData,
                    Err = NotInAllowedValues
                            (Some [GFloat64 (Fin 10), GFloat64 (Fin 20), GFloat64 (Fin 50)])\<rparr>) \<and>
   UpdateOrgPreference example_globals empty_db ''MAX_ALERTS'' (GFloat64 (Fin 4)) ''org1'' =
     (Returns (Inr \<lparr>PreferenceId = ''MAX_ALERTS'', PreferenceValue = GFloat64 (Fin 4)\<rparr>),
      empty_db\<lparr>org_preference := [((''MAX_ALERTS'', ''org1''), GString ''4.0'')]\<rparr>) \<and>
   GFloat64 (Fin 4) \<noteq> GInt64 4 \<and> GString ''4.0'' \<noteq> GString ''4''"
proof -
  have a: "IsValidValue pref_PAGE_SIZE (GFloat64 (Fin 20)) = Returns None"
    by (simp add: IsValidValue_def IsValidValue_switch_def integerValue_20 pref_PAGE_SIZE_def
        const_defs checkIfInAllowedValues_def elems_def)
  have b: "IsValidValue pref_PAGE_SIZE (GInt64 20) =
     Returns (Some \<lparr>Typ = ErrorBadData,
                    Err = NotInAllowedValues
                            (Some [GFloat64 (Fin 10), GFloat64 (Fin 20), GFloat64 (Fin 50)])\<rparr>)"
    by (simp add: IsValidValue_def IsValidValue_switch_def integerValue_def pref_PAGE_SIZE_def
        const_defs checkIfInAllowedValues_def elems_def)
  show ?thesis using a b UpdateOrgPreference_float_4 by simp
qed

text \<open>
  C3, amended. For an integer-typed definition: a candidate that is neither an int64 nor
  a float64 gets the type mismatch naming the expected type; an int64 never does; a
  float64 whose integer part fits an int64 gets it exactly when it has a fractional part,
  so the negative zero never does. A float without a fractional part is taken as the
  integer for the range check only (with \<open>IsDescreteValues\<close> false it is validated as
  that int64, the negative zero as 0); the check of the allowed values compares the float
  as submitted. A set operation that succeeds returns the candidate as submitted and
  binds the candidate as submitted to the \<open>INSERT\<close>: the row holds what the column makes
  of that candidate.
\<close>

theorem IsValidValue_integer_type:
  assumes ty: "ValueType p = PreferenceValueTypeInteger"
  shows "((\<forall>n. v \<noteq> GInt64 n) \<longrightarrow> (\<forall>f. v \<noteq> GFloat64 f) \<longrightarrow>
            IsValidValue p v = Returns (Some (ErrorValueTypeMismatch p))) \<and>
         IsValidValue p (GInt64 n) \<noteq> Returns (Some (ErrorValueTypeMismatch p)) \<and>
         (is_float64 r \<longrightarrow> - 9223372036854775808 \<le> trunc_rat r \<longrightarrow>
          trunc_rat r < 9223372036854775808 \<longrightarrow>
            (IsValidValue p (GFloat64 (Fin r)) = Returns (Some (ErrorValueTypeMismatch p))
               \<longleftrightarrow> r \<notin> \<int>) \<and>
            (r \<in> \<int> \<longrightarrow> \<not> IsDescreteValues p \<longrightarrow>
               IsValidValue p (GFloat64 (Fin r)) =
                 IsValidValue p (GInt64 (word_of_int (trunc_rat r)))) \<and>
            (r \<in> \<int> \<longrightarrow> IsDescreteValues p \<longrightarrow> AllowedValues p = Some avs \<longrightarrow>
               IsValidValue p (GFloat64 (Fin r)) =
                 Returns (if \<exists>a\<in>set avs. iface_eq a (GFloat64 (Fin r)) = Returns True then None
                          else Some \<lparr>Typ = ErrorBadData,
                                     Err = NotInAllowedValues (Some avs)\<rparr>))) \<and>
         IsValidValue p (GFloat64 NegZero) \<noteq> Returns (Some (ErrorValueTypeMismatch p)) \<and>
         (\<not> IsDescreteValues p \<longrightarrow>
            IsValidValue p (GFloat64 NegZero) = IsValidValue p (GInt64 0)) \<and>
         (IsDescreteValues p \<longrightarrow> AllowedValues p = Some avs \<longrightarrow>
            IsValidValue p (GFloat64 NegZero) =
              Returns (if \<exists>a\<in>set avs. iface_eq a (GFloat64 NegZero) = Returns True then None
                       else Some \<lparr>Typ = ErrorBadData,
                                  Err = NotInAllowedValues (Some avs)\<rparr>)) \<and>
         (preferenceMap g preferenceId = Some p \<longrightarrow>
            (UpdateOrgPreference g db preferenceId v orgId = (Returns (Inr kv), db') \<longrightarrow>
               PreferenceValue kv = v \<and>
               map_option Inr (map_of (org_preference db') (preferenceId, orgId)) =
                 Some (column_of_argument v)) \<and>
            (UpdateUserPreference g db preferenceId v userId = (Returns (Inr kv), db') \<longrightarrow>
               PreferenceValue kv = v \<and>
               map_option Inr (map_of (user_preference db') (preferenceId, userId)) =
                 Some (column_of_argument v)))"
proof -
  have a: "(\<forall>n. v \<noteq> GInt64 n) \<longrightarrow> (\<forall>f. v \<noteq> GFloat64 f) \<longrightarrow>
            IsValidValue p v = Returns (Some (ErrorValueTypeMismatch p))"
    using ty by (cases v) (simp_all add: IsValidValue_def IsValidValue_switch_def integerValue_def)
  note nopanic = iface_eq_scalar_no_panic
  have mm: "\<And>x y. \<lparr>Typ = ErrorBadData, Err = NotInRange x y\<rparr> \<noteq> ErrorValueTypeMismatch p"
    "\<And>x. \<lparr>Typ = ErrorBadData, Err = NotInAllowedValues x\<rparr> \<noteq> ErrorValueTypeMismatch p"
    by (simp_all add: ErrorValueTypeMismatch_def)
  have iv': "integerValue (GInt64 w) = Some w" for w by (simp add: integerValue_def)
  have b: "IsValidValue p (GInt64 n) \<noteq> Returns (Some (ErrorValueTypeMismatch p))"
    using ty mm nopanic
    by (auto simp add: IsValidValue_def IsValidValue_switch_def integerValue_def
        checkIfInAllowedValues_def checkIfInAllowedValues_loop_eq
        split: outcome.splits if_splits)
  have c: "is_float64 r \<longrightarrow> - 9223372036854775808 \<le> trunc_rat r \<longrightarrow>
          trunc_rat r < 9223372036854775808 \<longrightarrow>
            (IsValidValue p (GFloat64 (Fin r)) = Returns (Some (ErrorValueTypeMismatch p))
               \<longleftrightarrow> r \<notin> \<int>) \<and>
            (r \<in> \<int> \<longrightarrow> \<not> IsDescreteValues p \<longrightarrow>
               IsValidValue p (GFloat64 (Fin r)) =
                 IsValidValue p (GInt64 (word_of_int (trunc_rat r)))) \<and>
            (r \<in> \<int> \<longrightarrow> IsDescreteValues p \<longrightarrow> AllowedValues p = Some avs \<longrightarrow>
               IsValidValue p (GFloat64 (Fin r)) =
                 Returns (if \<exists>a\<in>set avs. iface_eq a (GFloat64 (Fin r)) = Returns True then None
                          else Some \<lparr>Typ = ErrorBadData,
                                     Err = NotInAllowedValues (Some avs)\<rparr>))"
  proof (intro impI)
    assume fl: "is_float64 r" and lo: "- 9223372036854775808 \<le> trunc_rat r"
      and hi: "trunc_rat r < 9223372036854775808"
    note iv = integerValue_float [OF lo hi fl]
    have c1: "IsValidValue p (GFloat64 (Fin r)) = Returns (Some (ErrorValueTypeMismatch p))
               \<longleftrightarrow> r \<notin> \<int>"
      using ty mm nopanic
      by (auto simp add: IsValidValue_def IsValidValue_switch_def iv
          checkIfInAllowedValues_def checkIfInAllowedValues_loop_eq
          split: outcome.splits if_splits)
    have c2: "r \<in> \<int> \<longrightarrow> \<not> IsDescreteValues p \<longrightarrow>
               IsValidValue p (GFloat64 (Fin r)) =
                 IsValidValue p (GInt64 (word_of_int (trunc_rat r)))"
      using ty by (simp add: IsValidValue_def IsValidValue_switch_def iv iv')
    have c3: "r \<in> \<int> \<longrightarrow> IsDescreteValues p \<longrightarrow> AllowedValues p = Some avs \<longrightarrow>
               IsValidValue p (GFloat64 (Fin r)) =
                 Returns (if \<exists>a\<in>set avs. iface_eq a (GFloat64 (Fin r)) = Returns True then None
                          else Some \<lparr>Typ = ErrorBadData,
                                     Err = NotInAllowedValues (Some avs)\<rparr>)"
      using ty nopanic
      by (simp add: IsValidValue_def IsValidValue_switch_def iv
          checkIfInAllowedValues_def checkIfInAllowedValues_loop_eq elems_def)
    show "(IsValidValue p (GFloat64 (Fin r)) = Returns (Some (ErrorValueTypeMismatch p))
               \<longleftrightarrow> r \<notin> \<int>) \<and>
            (r \<in> \<int> \<longrightarrow> \<not> IsDescreteValues p \<longrightarrow>
               IsValidValue p (GFloat64 (Fin r)) =
                 IsValidValue p (GInt64 (word_of_int (trunc_rat r)))) \<and>
            (r \<in> \<int> \<longrightarrow> IsDescreteValues p \<longrightarrow> AllowedValues p = Some avs \<longrightarrow>
               IsValidValue p (GFloat64 (Fin r)) =
                 Returns (if \<exists>a\<in>set avs. iface_eq a (GFloat64 (Fin r)) = Returns True then None
                          else Some \<lparr>Typ = ErrorBadData,
                                     Err = NotInAllowedValues (Some avs)\<rparr>))"
      using c1 c2 c3 by blast
  qed
  note nz = integerValue_NegZero
  have d1: "IsValidValue p (GFloat64 NegZero) \<noteq> Returns (Some (ErrorValueTypeMismatch p))"
    using ty mm nopanic
    by (auto simp add: IsValidValue_def IsValidValue_switch_def nz
        checkIfInAllowedValues_def checkIfInAllowedValues_loop_eq
        split: outcome.splits if_splits)
  have d2: "\<not> IsDescreteValues p \<longrightarrow>
            IsValidValue p (GFloat64 NegZero) = IsValidValue p (GInt64 0)"
    using ty by (simp add: IsValidValue_def IsValidValue_switch_def nz iv')
  have d3: "IsDescreteValues p \<longrightarrow> AllowedValues p = Some avs \<longrightarrow>
            IsValidValue p (GFloat64 NegZero) =
              Returns (if \<exists>a\<in>set avs. iface_eq a (GFloat64 NegZero) = Returns True then None
                       else Some \<lparr>Typ = ErrorBadData,
                                  Err = NotInAllowedValues (Some avs)\<rparr>)"
    using ty nopanic
    by (simp add: IsValidValue_def IsValidValue_switch_def nz
        checkIfInAllowedValues_def checkIfInAllowedValues_loop_eq elems_def)
  show ?thesis
    using a b c d1 d2 d3 Update_returns_raw [of g db preferenceId v orgId kv db' userId]
    by blast
qed

text \<open>
  The theorem at \<open>MAX_ALERTS\<close>: the string \<open>"4"\<close> and the float 4.5 get the type
  mismatch, the float 4 is validated as the int64 4 and accepted, the negative zero is
  validated as the int64 0, below the range, and setting the float 4 returns it and
  leaves its text in the column; and at \<open>PAGE_SIZE\<close>, where the float 20 is compared with
  the allowed values as a float.
\<close>

theorem IsValidValue_integer_type_witness:
  "ValueType pref_MAX_ALERTS = PreferenceValueTypeInteger \<and>
   IsValidValue pref_MAX_ALERTS (GString ''4'') =
     Returns (Some \<lparr>Typ = ErrorBadData, Err = NotOfExpectedType ''integer''\<rparr>) \<and>
   is_float64 (9 / 2) \<and> trunc_rat (9 / 2) = 4 \<and> 9 / 2 \<notin> (\<int> :: rat set) \<and>
   IsValidValue pref_MAX_ALERTS (GFloat64 (Fin (9 / 2))) =
     Returns (Some \<lparr>Typ = ErrorBadData, Err = NotOfExpectedType ''integer''\<rparr>) \<and>
   is_float64 4 \<and> trunc_rat 4 = 4 \<and> \<not> IsDescreteValues pref_MAX_ALERTS \<and>
   IsValidValue pref_MAX_ALERTS (GFloat64 (Fin 4)) = IsValidValue pref_MAX_ALERTS (GInt64 4) \<and>
   IsValidValue pref_MAX_ALERTS (GInt64 4) = Returns None \<and>
   IsValidValue pref_MAX_ALERTS (GFloat64 NegZero) = IsValidValue pref_MAX_ALERTS (GInt64 0) \<and>
   IsValidValue pref_MAX_ALERTS (GInt64 0) =
     Returns (Some \<lparr>Typ = ErrorBadData, Err = NotInRange 1 100\<rparr>) \<and>
   preferenceMap example_globals ''MAX_ALERTS'' = Some pref_MAX_ALERTS \<and>
   UpdateOrgPreference example_globals empty_db ''MAX_ALERTS'' (GFloat64 (Fin 4)) ''org1'' =
     (Returns (Inr \<lparr>PreferenceId = ''MAX_ALERTS'', PreferenceValue = GFloat64 (Fin 4)\<rparr>),
      empty_db\<lparr>org_preference := [((''MAX_ALERTS'', ''org1''), GString ''4.0'')]\<rparr>) \<and>
   map_option Inr
     (map_of (org_preference
                (empty_db\<lparr>org_preference := [((''MAX_ALERTS'', ''org1''), GString ''4.0'')]\<rparr>))
        (''MAX_ALERTS'', ''org1'')) = Some (column_of_argument (GFloat64 (Fin 4))) \<and>
   ValueType pref_PAGE_SIZE = PreferenceValueTypeInteger \<and>
   is_float64 20 \<and> trunc_rat 20 = 20 \<and> IsDescreteValues pref_PAGE_SIZE \<and>
   IsValidValue pref_PAGE_SIZE (GFloat64 (Fin 20)) = Returns None"
proof -
  have t1: "ValueType pref_MAX_ALERTS = PreferenceValueTypeInteger"
    by (simp add: pref_MAX_ALERTS_def const_defs)
  have t2: "ValueType pref_PAGE_SIZE = PreferenceValueTypeInteger"
    by (simp add: pref_PAGE_SIZE_def const_defs)
  have f92: "is_float64 (9 / 2)"
    unfolding is_float64_def by (rule exI [of _ 9], rule exI [of _ 1]) simp
  have f4: "is_float64 4" using is_float64_of_int [of 4] by simp
  have f20: "is_float64 20" using is_float64_of_int [of 20] by simp
  have "\<lfloor>9 / 2 :: rat\<rfloor> = 4" by (simp add: floor_eq_iff)
  then have tr: "trunc_rat (9 / 2) = 4" "trunc_rat 4 = 4" "trunc_rat 20 = 20"
    by (simp_all add: trunc_rat_def)
  have ni: "9 / 2 \<notin> (\<int> :: rat set)"
  proof
    assume "9 / 2 \<in> (\<int> :: rat set)"
    then obtain k :: int where "(9 / 2 :: rat) = of_int k" by (auto simp: Ints_def)
    then have "(of_int 9 :: rat) = of_int (2 * k)" by simp
    then have "9 = 2 * k" using of_int_eq_iff by blast
    then show False by presburger
  qed
  have nd: "\<not> IsDescreteValues pref_MAX_ALERTS" by (simp add: pref_MAX_ALERTS_def)
  have d: "IsDescreteValues pref_PAGE_SIZE"
    "AllowedValues pref_PAGE_SIZE = Some [GFloat64 (Fin 10), GFloat64 (Fin 20), GFloat64 (Fin 50)]"
    by (simp_all add: pref_PAGE_SIZE_def)
  have v4: "IsValidValue pref_MAX_ALERTS (GInt64 4) = Returns None"
    by (simp add: IsValidValue_def IsValidValue_switch_def integerValue_def pref_MAX_ALERTS_def
        const_defs)
  have v0: "IsValidValue pref_MAX_ALERTS (GInt64 0) =
     Returns (Some \<lparr>Typ = ErrorBadData, Err = NotInRange 1 100\<rparr>)"
    by (simp add: IsValidValue_def IsValidValue_switch_def integerValue_def pref_MAX_ALERTS_def
        const_defs)
  have mm: "ErrorValueTypeMismatch pref_MAX_ALERTS =
      \<lparr>Typ = ErrorBadData, Err = NotOfExpectedType ''integer''\<rparr>"
    by (simp add: ErrorValueTypeMismatch_def pref_MAX_ALERTS_def)
  have pm: "preferenceMap example_globals ''MAX_ALERTS'' = Some pref_MAX_ALERTS"
    by (simp add: example_globals_def)
  note up = UpdateOrgPreference_float_4
  show ?thesis
    using t1 t2 f92 f4 f20 tr ni nd d(1) v4 v0 pm up
      IsValidValue_integer_type [OF t1, of "GString ''4''" 4 "9 / 2"]
      IsValidValue_integer_type [OF t1, of "GFloat64 (Fin 4)" 4 4 _ example_globals
        "''MAX_ALERTS''" empty_db "''org1''"
        "\<lparr>PreferenceId = ''MAX_ALERTS'', PreferenceValue = GFloat64 (Fin 4)\<rparr>"
        "empty_db\<lparr>org_preference := [((''MAX_ALERTS'', ''org1''), GString ''4.0'')]\<rparr>"]
      IsValidValue_integer_type [OF t2, of "GString ''4''" 4 20
        "[GFloat64 (Fin 10), GFloat64 (Fin 20), GFloat64 (Fin 50)]"]
    by (simp add: mm d(2))
qed

section \<open>Defaults and sanitization\<close>

text \<open>
  What the getters return when no row is stored: the org getter the default as it is, the
  user getter the default passed through \<open>SanitizeValue\<close>.
\<close>

lemma GetOrgPreference_no_row:
  "preferenceMap g preferenceId = Some p \<Longrightarrow> IsEnabledForScope p OrgAllowedScope \<Longrightarrow>
   org_fault db = None \<Longrightarrow> map_of (org_preference db) (preferenceId, orgId) = None \<Longrightarrow>
   GetOrgPreference g db preferenceId orgId =
     Inr \<lparr>PreferenceId = preferenceId, PreferenceValue = DefaultValue p\<rparr>"
  by (simp add: GetOrgPreference_def db_Get_def)

lemma GetUserPreference_no_rows:
  "preferenceMap g preferenceId = Some p \<Longrightarrow> IsEnabledForScope p UserAllowedScope \<Longrightarrow>
   org_fault db = None \<Longrightarrow> user_fault db = None \<Longrightarrow>
   map_of (org_preference db) (preferenceId, orgId) = None \<Longrightarrow>
   map_of (user_preference db) (preferenceId, userId) = None \<Longrightarrow>
   GetUserPreference g db preferenceId orgId userId =
     Inr \<lparr>PreferenceId = preferenceId, PreferenceValue = SanitizeValue p (DefaultValue p)\<rparr>"
  by (simp add: GetUserPreference_def db_Get_def)

lemma SanitizeValue_default_fixed:
  "SanitizeValue p (DefaultValue p) = DefaultValue p \<longleftrightarrow>
   ValueType p \<noteq> PreferenceValueTypeBoolean \<or> DefaultValue p = GBool False"
  by (auto simp add: SanitizeValue_def)

text \<open>
  The bulk listings, for the package variables as \<open>InitDB\<close> leaves them and tables that
  keep their primary key. Each listing emits the definitions enabled at its scope, in
  their order, one row each. A row of the user listing holds what \<open>GetUserPreference\<close>
  returns for its key; a row of the org listing holds what \<open>GetOrgPreference\<close> returns
  when a row is stored for its key or \<open>SanitizeValue\<close> leaves the default as it is.
\<close>

lemma valueMap_loop_Select:
  "distinct (map fst tbl) \<Longrightarrow>
   valueMap_loop
     (map (\<lambda>r. \<lparr>PreferenceId = fst (fst r), PreferenceValue = snd r\<rparr>)
        (filter (\<lambda>r. snd (fst r) = ownerId) tbl)) m k =
   (case map_of tbl (k, ownerId) of Some v \<Rightarrow> Some v | None \<Rightarrow> m k)"
proof (induction tbl arbitrary: m)
  case Nil
  then show ?case by simp
next
  case (Cons row tbl)
  obtain k' o' v' where row: "row = ((k', o'), v')" by (metis surj_pair)
  have d: "distinct (map fst tbl)" and n: "(k', o') \<notin> fst ` set tbl"
    using Cons.prems by (simp_all add: row)
  have none: "map_of tbl (k', o') = None" using n by (simp add: map_of_eq_None_iff)
  show ?case
    using Cons.IH [OF d] none by (auto simp add: row split: option.splits)
qed

lemma GetAllOrgPreferences_loop_eq:
  "GetAllOrgPreferences_loop prefs m acc =
     acc @ map (\<lambda>p. Preference.extend p
                  (AllPreferences.fields
                     (SanitizeValue p (case m (Key p) of Some ok \<Rightarrow> ok | None \<Rightarrow> DefaultValue p))))
             (filter (\<lambda>p. IsEnabledForScope p OrgAllowedScope) prefs)"
  by (induction prefs arbitrary: acc) simp_all

lemma GetAllUserPreferences_loop_eq:
  "GetAllUserPreferences_loop prefs om um acc =
     acc @ map (\<lambda>p. Preference.extend p
                  (AllPreferences.fields
                     (SanitizeValue p
                        (case um (Key p) of
                           Some ok \<Rightarrow> ok
                         | None \<Rightarrow>
                             (if IsEnabledForScope p OrgAllowedScope then
                                (case om (Key p) of Some ok \<Rightarrow> ok | None \<Rightarrow> DefaultValue p)
                              else DefaultValue p)))))
             (filter (\<lambda>p. IsEnabledForScope p UserAllowedScope) prefs)"
  by (induction prefs arbitrary: acc) simp_all

lemma InitDB_loop_lookup:
  "InitDB_loop prefs m = Inr m' \<Longrightarrow>
   (\<forall>p\<in>set prefs. m' (Key p) = Some p) \<and> (\<forall>k. m k \<noteq> None \<longrightarrow> m' k = m k)"
proof (induction prefs arbitrary: m)
  case Nil
  then show ?case by simp
next
  case (Cons p prefs)
  from Cons.prems have fresh: "m (Key p) = None"
    and rest: "InitDB_loop prefs (m(Key p \<mapsto> p)) = Inr m'"
    by (auto split: option.splits)
  from Cons.IH [OF rest] have ih1: "\<forall>q\<in>set prefs. m' (Key q) = Some q"
    and ih2: "\<forall>k. (m(Key p \<mapsto> p)) k \<noteq> None \<longrightarrow> m' k = (m(Key p \<mapsto> p)) k"
    by blast+
  have "m' (Key p) = Some p" using ih2 by simp
  moreover have "\<forall>k. m k \<noteq> None \<longrightarrow> m' k = m k" using ih2 fresh by (metis fun_upd_apply)
  ultimately show ?case using ih1 by simp
qed

lemma InitDB_lookup:
  "InitDB prefs = Inr g \<Longrightarrow> preferences g = prefs \<and> (\<forall>p\<in>set prefs. preferenceMap g (Key p) = Some p)"
  using InitDB_loop_lookup [of prefs Map.empty]
  by (auto simp add: InitDB_def split: sum.splits)

lemma truncate_extend: "Preference.truncate (Preference.extend p (AllPreferences.fields v)) = p"
  by (cases p) (simp add: Preference.truncate_def Preference.extend_def AllPreferences.fields_def)

lemma extend_selectors: "Key (Preference.extend p (AllPreferences.fields v)) = Key p"
  "Value (Preference.extend p (AllPreferences.fields v)) = v"
  by (cases p, simp add: Preference.extend_def AllPreferences.fields_def)+

lemma GetAllUserPreferences_agrees:
  assumes init: "InitDB prefs = Inr g"
    and pk: "distinct (map fst (org_preference db))" "distinct (map fst (user_preference db))"
    and ok: "org_fault db = None" "user_fault db = None"
  shows "\<exists>rows. GetAllUserPreferences g db orgId userId = Inr rows \<and>
     map Preference.truncate rows = filter (\<lambda>p. IsEnabledForScope p UserAllowedScope) prefs \<and>
     (\<forall>row\<in>set rows. GetUserPreference g db (Key row) orgId userId =
         Inr \<lparr>PreferenceId = Key row, PreferenceValue = Value row\<rparr>)"
proof -
  from InitDB_lookup [OF init] have g: "preferences g = prefs"
    and look: "\<And>p. p \<in> set prefs \<Longrightarrow> preferenceMap g (Key p) = Some p" by blast+
  let ?f = "\<lambda>p. Preference.extend p
                  (AllPreferences.fields
                     (SanitizeValue p
                        (case map_of (user_preference db) (Key p, userId) of
                           Some ok \<Rightarrow> ok
                         | None \<Rightarrow>
                             (if IsEnabledForScope p OrgAllowedScope then
                                (case map_of (org_preference db) (Key p, orgId) of Some ok \<Rightarrow> ok | None \<Rightarrow> DefaultValue p)
                              else DefaultValue p))))"
  let ?rows = "map ?f (filter (\<lambda>p. IsEnabledForScope p UserAllowedScope) prefs)"
  have r: "GetAllUserPreferences g db orgId userId = Inr ?rows"
    by (simp add: GetAllUserPreferences_def db_Select_def ok g GetAllUserPreferences_loop_eq
        valueMap_loop_Select [OF pk(1)] valueMap_loop_Select [OF pk(2)] option.case_eq_if)
  have t: "map Preference.truncate ?rows = filter (\<lambda>p. IsEnabledForScope p UserAllowedScope) prefs"
    by (simp add: o_def truncate_extend)
  have a: "GetUserPreference g db (Key row) orgId userId =
         Inr \<lparr>PreferenceId = Key row, PreferenceValue = Value row\<rparr>" if "row \<in> set ?rows" for row
  proof -
    from that obtain p where p: "p \<in> set prefs" "IsEnabledForScope p UserAllowedScope" "row = ?f p"
      by auto
    show ?thesis
      using look [OF p(1)] p(2)
      by (simp add: p(3) extend_selectors GetUserPreference_def db_Get_def ok split: option.splits)
  qed
  show ?thesis using r t a by blast
qed

lemma GetAllOrgPreferences_agrees:
  assumes init: "InitDB prefs = Inr g"
    and pk: "distinct (map fst (org_preference db))"
    and ok: "org_fault db = None"
  shows "\<exists>rows. GetAllOrgPreferences g db orgId = Inr rows \<and>
     map Preference.truncate rows = filter (\<lambda>p. IsEnabledForScope p OrgAllowedScope) prefs \<and>
     (\<forall>row\<in>set rows.
         map_of (org_preference db) (Key row, orgId) \<noteq> None \<or>
         SanitizeValue row (DefaultValue row) = DefaultValue row \<longrightarrow>
         GetOrgPreference g db (Key row) orgId =
           Inr \<lparr>PreferenceId = Key row, PreferenceValue = Value row\<rparr>)"
proof -
  from InitDB_lookup [OF init] have g: "preferences g = prefs"
    and look: "\<And>p. p \<in> set prefs \<Longrightarrow> preferenceMap g (Key p) = Some p" by blast+
  let ?f = "\<lambda>p. Preference.extend p
                  (AllPreferences.fields
                     (SanitizeValue p
                        (case map_of (org_preference db) (Key p, orgId) of
                           Some ok \<Rightarrow> ok | None \<Rightarrow> DefaultValue p)))"
  let ?rows = "map ?f (filter (\<lambda>p. IsEnabledForScope p OrgAllowedScope) prefs)"
  have r: "GetAllOrgPreferences g db orgId = Inr ?rows"
    by (simp add: GetAllOrgPreferences_def db_Select_def ok g GetAllOrgPreferences_loop_eq
        valueMap_loop_Select [OF pk] option.case_eq_if)
  have t: "map Preference.truncate ?rows = filter (\<lambda>p. IsEnabledForScope p OrgAllowedScope) prefs"
    by (simp add: o_def truncate_extend)
  have a: "GetOrgPreference g db (Key row) orgId =
         Inr \<lparr>PreferenceId = Key row, PreferenceValue = Value row\<rparr>"
    if "row \<in> set ?rows"
      and "map_of (org_preference db) (Key row, orgId) \<noteq> None \<or>
         SanitizeValue row (DefaultValue row) = DefaultValue row" for row
  proof -
    from that(1) obtain p where p: "p \<in> set prefs" "IsEnabledForScope p OrgAllowedScope" "row = ?f p"
      by auto
    have s: "SanitizeValue row x = SanitizeValue p x" for x
      by (cases p) (simp add: p(3) SanitizeValue_def Preference.extend_def AllPreferences.fields_def)
    have dv: "DefaultValue row = DefaultValue p"
      by (cases p) (simp add: p(3) Preference.extend_def AllPreferences.fields_def)
    show ?thesis
      using look [OF p(1)] p(2) that(2) unfolding s dv
      by (auto simp add: p(3) extend_selectors GetOrgPreference_def db_Get_def ok split: option.splits)
  qed
  show ?thesis using r t a by blast
qed

text \<open>
  C2, at a boolean preference whose default is true and with no row stored: the org
  getter returns the default, true; the user getter passes the default through
  \<open>SanitizeValue\<close> and returns false.
\<close>

theorem GetUserPreference_default_sanitized:
  "DefaultValue pref_DARK_MODE = GBool True \<and>
   GetOrgPreference example_globals empty_db ''DARK_MODE'' ''org1'' =
     Inr \<lparr>PreferenceId = ''DARK_MODE'', PreferenceValue = GBool True\<rparr> \<and>
   GetUserPreference example_globals empty_db ''DARK_MODE'' ''org1'' ''user1'' =
     Inr \<lparr>PreferenceId = ''DARK_MODE'', PreferenceValue = GBool False\<rparr>"
  by (simp add: GetOrgPreference_def GetUserPreference_def example_globals_def empty_db_def
      pref_DARK_MODE_def IsEnabledForScope_def const_defs db_Get_def SanitizeValue_def)

text \<open>
  C8, on the same definition and the empty store: \<open>GetAllOrgPreferences\<close> emits the rows
  of the three definitions enabled at org scope, and the row of \<open>DARK_MODE\<close> holds false
  where \<open>GetOrgPreference\<close> returns true.
\<close>

theorem GetAllOrgPreferences_differs_from_getter:
  "GetOrgPreference example_globals empty_db ''DARK_MODE'' ''org1'' =
     Inr \<lparr>PreferenceId = ''DARK_MODE'', PreferenceValue = GBool True\<rparr> \<and>
   map_sum id (map (\<lambda>row. (Key row, Value row)))
       (GetAllOrgPreferences example_globals empty_db ''org1'') =
     Inr [(''MAX_ALERTS'', GFloat64 (Fin 10)), (''DARK_MODE'', GBool False), (''LAYOUT'', GNil)]"
  by (simp add: GetOrgPreference_def GetAllOrgPreferences_def example_globals_def empty_db_def
      example_preferences_def pref_MAX_ALERTS_def pref_PAGE_SIZE_def pref_THEME_def
      pref_LAYOUT_def pref_DARK_MODE_def IsEnabledForScope_def const_defs db_Get_def
      db_Select_def SanitizeValue_def Preference.extend_def AllPreferences.fields_def)

end
